theory Spec2Isabelle
  imports Main "HOL-Library.Word"
begin

section \<open>Library values used by the parser\<close>

subsection \<open>strconv: decimal integers of 64 bits\<close>

type_synonym int64 = "64 word"

text \<open>The \<open>Err\<close> field of a \<open>*strconv.NumError\<close>.\<close>

datatype NumError = ErrSyntax | ErrRange

definition maxUint64 :: nat where
  "maxUint64 = 2 ^ 64 - 1"

text \<open>One byte of the input of \<open>strconv.ParseUint\<close> in base 10: the digits \<open>0\<close> to \<open>9\<close>
  have a value, every other byte (letters are digits of larger bases, the underscore is
  accepted for base 0 only) is a syntax error.\<close>

definition digit_value :: "char \<Rightarrow> nat option" where
  "digit_value c =
     (let k = (of_char c :: nat) in if 48 \<le> k \<and> k \<le> 57 then Some (k - 48) else None)"

text \<open>The loop of \<open>strconv.ParseUint(s, 10, 64)\<close> over the bytes of \<open>s\<close>, with the
  accumulator \<open>n\<close>. The cutoff is \<open>maxUint64/10 + 1\<close>: at or above it \<open>n * 10\<close> overflows.
  The source tests \<open>n1 < n || n1 > maxVal\<close> on wrapped 64-bit values; on unbounded
  naturals both tests are \<open>n1 > maxUint64\<close>.\<close>

fun ParseUint_loop :: "nat \<Rightarrow> string \<Rightarrow> NumError + nat" where
  "ParseUint_loop n [] = Inr n"
| "ParseUint_loop n (c # cs) =
     (case digit_value c of
        None \<Rightarrow> Inl ErrSyntax
      | Some d \<Rightarrow>
          if n \<ge> maxUint64 div 10 + 1 then Inl ErrRange
          else if n * 10 + d > maxUint64 then Inl ErrRange
          else ParseUint_loop (n * 10 + d) cs)"

definition ParseUint :: "string \<Rightarrow> NumError + nat" where
  "ParseUint s = (if s = [] then Inl ErrSyntax else ParseUint_loop 0 s)"

text \<open>\<open>strconv.ParseInt(s, 10, 64)\<close>: an optional sign, then \<open>ParseUint\<close>; a syntax
  error is returned as it is, a range error of \<open>ParseUint\<close> and a magnitude beyond the
  signed range are range errors.\<close>

definition ParseInt :: "string \<Rightarrow> NumError + int64" where
  "ParseInt s =
     (if s = [] then Inl ErrSyntax
      else
        let neg = (hd s = CHR ''-'');
            s1 = (if hd s = CHR ''+'' \<or> hd s = CHR ''-'' then tl s else s)
        in case ParseUint s1 of
             Inl ErrSyntax \<Rightarrow> Inl ErrSyntax
           | Inl ErrRange \<Rightarrow> Inl ErrRange
           | Inr un \<Rightarrow>
               if \<not> neg \<and> un \<ge> 2 ^ 63 then Inl ErrRange
               else if neg \<and> un > 2 ^ 63 then Inl ErrRange
               else Inr (if neg then - (of_nat un) else of_nat un))"

text \<open>The table \<open>digits\<close> of package strconv.\<close>

definition digits :: string where
  "digits = ''0123456789abcdefghijklmnopqrstuvwxyz''"

text \<open>The decimal digits of a natural number, most significant first, as
  \<open>strconv.formatBits\<close> writes them.\<close>

fun decimal :: "nat \<Rightarrow> string" where
  "decimal n =
     (if n < 10 then [digits ! n]
      else decimal (n div 10) @ [digits ! (n mod 10)])"

declare decimal.simps [simp del]

text \<open>\<open>strconv.FormatInt(i, 10)\<close>: a minus sign and the magnitude for a negative value.\<close>

definition FormatInt :: "int64 \<Rightarrow> string" where
  "FormatInt i =
     (if sint i < 0 then CHR ''-'' # decimal (nat (- sint i)) else decimal (nat (sint i)))"

text \<open>\<open>fmt.Sprintf("%q", s)\<close> for a string of printable ASCII with no quote and no
  backslash, which needs no escape: the string between double quotes. \<open>FormatInt\<close>
  returns only such strings (lemma \<open>FormatInt_plain\<close>).\<close>

definition Sprintf_q :: "string \<Rightarrow> string" where
  "Sprintf_q s = CHR 0x22 # s @ [CHR 0x22]"

subsection \<open>time: instants\<close>

text \<open>A \<open>time.Time\<close> without a monotonic clock reading: the seconds since January 1 of
  year 1 as a signed 64-bit integer, and the nanoseconds within the second. Every instant
  of this program comes from \<open>time.Unix\<close>, \<open>time.Parse\<close> or \<open>Time.AddDate\<close>, none of
  which keeps a monotonic reading.\<close>

record Time =
  sec :: int64
  nsec :: nat

text \<open>The seconds from year 1 to 1970, \<open>unixToInternal\<close> of package time.\<close>

definition unixToInternal :: int64 where
  "unixToInternal = 62135596800"

text \<open>\<open>time.Unix(s, 0)\<close>, the only form the program calls: the addition is on 64-bit
  integers and wraps.\<close>

definition time_Unix :: "int64 \<Rightarrow> Time" where
  "time_Unix s = \<lparr>sec = s + unixToInternal, nsec = 0\<rparr>"

text \<open>The method \<open>t.Unix()\<close>.\<close>

definition Time_Unix :: "Time \<Rightarrow> int64" where
  "Time_Unix t = sec t - unixToInternal"

text \<open>\<open>t.Before(u)\<close> and \<open>t.After(u)\<close>: signed comparison of the seconds, then of the
  nanoseconds.\<close>

definition Before :: "Time \<Rightarrow> Time \<Rightarrow> bool" where
  "Before t u = (sint (sec t) < sint (sec u) \<or> sec t = sec u \<and> nsec t < nsec u)"

definition After :: "Time \<Rightarrow> Time \<Rightarrow> bool" where
  "After t u = (sint (sec t) > sint (sec u) \<or> sec t = sec u \<and> nsec t > nsec u)"

section \<open>The record model (package types)\<close>

text \<open>A value a Go function returns, or the runtime panic of dereferencing a nil
  pointer.\<close>

datatype 'a run = NilPointerDereference | Returned 'a

text \<open>\<open>type date time.Time\<close>; the field \<open>Date *date\<close> of \<open>Issued\<close> is a pointer, nil
  when no attribute was decoded.\<close>

record Issued =
  Date :: "Time option"

text \<open>\<open>Issued.MarshalJSON\<close>: dereferences \<open>i.Date\<close> without a test, then quotes the
  decimal Unix seconds.\<close>

definition MarshalJSON :: "Issued \<Rightarrow> string run" where
  "MarshalJSON i =
     (case Date i of
        None \<Rightarrow> NilPointerDereference
      | Some t \<Rightarrow> Returned (Sprintf_q (FormatInt (Time_Unix t))))"

text \<open>\<open>(*date).UnmarshalXMLAttr\<close> on the attribute's value: the error of \<open>ParseInt\<close>, or
  the new value of \<open>*d\<close>.\<close>

definition date_UnmarshalXMLAttr :: "string \<Rightarrow> NumError + Time" where
  "date_UnmarshalXMLAttr v =
     (case ParseInt v of Inl err \<Rightarrow> Inl err | Inr ts \<Rightarrow> Inr (time_Unix ts))"

text \<open>A parsed \<open>url.URL\<close>, kept as the string its \<open>String\<close> method renders; the zero URL
  renders as the empty string. \<open>url.Parse\<close> is library code: the functions below take it
  as the parameter \<open>url_Parse\<close>, which returns the error's message or the URL.\<close>

type_synonym href = string

definition href_UnmarshalXMLAttr :: "(string \<Rightarrow> string + href) \<Rightarrow> string \<Rightarrow> string + href" where
  "href_UnmarshalXMLAttr url_Parse v =
     (case url_Parse v of Inl err \<Rightarrow> Inl err | Inr u \<Rightarrow> Inr u)"

record Reference =
  ref_URL :: href
  ref_ID :: string
  ref_Title :: string
  ref_Type :: string

record Package =
  Name :: string
  Version :: string
  pkg_Release :: string
  Arch :: string
  Filename :: string

record Update =
  Type :: string
  Status :: string
  ID :: string
  Title :: string
  Severity :: string
  Release :: string
  Issued :: Issued
  References :: "Reference list"
  Description :: string
  Packages :: "Package list"

text \<open>\<open>types.Update{}\<close>: every field at its zero value.\<close>

definition zero_Update :: Update where
  "zero_Update =
     \<lparr>Type = [], Status = [], ID = [], Title = [], Severity = [], Release = [],
      Issued = \<lparr>Date = None\<rparr>, References = [], Description = [], Packages = []\<rparr>"

section \<open>The token stream of encoding/xml\<close>

text \<open>What \<open>xml.Decoder\<close> hands to the program. An \<open>update\<close> element is given by the two
  attributes of its start tag and by its children in document order, each as the decoder
  maps it to a field of \<open>Update\<close>: the text of a scalar child, the \<open>date\<close> attribute of an
  \<open>issued\<close> child (\<open>None\<close> when the child has no such attribute), the \<open>reference\<close> children
  of a \<open>references\<close> child, the \<open>package\<close> children below a \<open>pkglist\<close> child, a child no
  field matches, and the point where the text of the element stops being well formed.\<close>

record raw_reference =
  raw_href :: "string option"
  raw_id :: string
  raw_title :: string
  raw_type :: string

datatype child =
    IdEl string
  | TitleEl string
  | SeverityEl string
  | ReleaseEl string
  | DescriptionEl string
  | IssuedEl "string option"
  | ReferencesEl "raw_reference list"
  | PkglistEl "Package list"
  | UnknownEl
  | Malformed string

record element =
  attr_type :: string
  attr_status :: string
  children :: "child list"

text \<open>The outcomes of \<open>d.Token()\<close>: the start tag of an \<open>update\<close> element, any other
  token, or an error that is not \<open>io.EOF\<close>. The end of the list is \<open>io.EOF\<close>.\<close>

datatype token = StartUpdate element | OtherToken | TokenError string

text \<open>Why \<open>d.DecodeElement\<close> failed: the text of the element, the \<open>date\<close> attribute or an
  \<open>href\<close> attribute.\<close>

datatype decode_error = SyntaxError string | DateAttr NumError | HrefAttr string

fun decode_reference :: "(string \<Rightarrow> string + href) \<Rightarrow> raw_reference \<Rightarrow> decode_error + Reference" where
  "decode_reference url_Parse r =
     (case raw_href r of
        None \<Rightarrow>
          Inr \<lparr>ref_URL = [], ref_ID = raw_id r, ref_Title = raw_title r, ref_Type = raw_type r\<rparr>
      | Some v \<Rightarrow>
          (case href_UnmarshalXMLAttr url_Parse v of
             Inl err \<Rightarrow> Inl (HrefAttr err)
           | Inr u \<Rightarrow>
               Inr \<lparr>ref_URL = u, ref_ID = raw_id r, ref_Title = raw_title r,
                    ref_Type = raw_type r\<rparr>))"

fun decode_references ::
  "(string \<Rightarrow> string + href) \<Rightarrow> raw_reference list \<Rightarrow> decode_error + Reference list" where
  "decode_references url_Parse [] = Inr []"
| "decode_references url_Parse (r # rs) =
     (case decode_reference url_Parse r of
        Inl err \<Rightarrow> Inl err
      | Inr x \<Rightarrow>
          (case decode_references url_Parse rs of
             Inl err \<Rightarrow> Inl err
           | Inr xs \<Rightarrow> Inr (x # xs)))"

text \<open>One child of the element stored into the record: a scalar overwrites its field,
  list elements are appended, a \<open>date\<close> attribute goes through \<open>date_UnmarshalXMLAttr\<close>,
  and the first failure ends the decoding.\<close>

fun decode_child :: "(string \<Rightarrow> string + href) \<Rightarrow> Update \<Rightarrow> child \<Rightarrow> decode_error + Update" where
  "decode_child url_Parse u (IdEl s) = Inr (u\<lparr>ID := s\<rparr>)"
| "decode_child url_Parse u (TitleEl s) = Inr (u\<lparr>Title := s\<rparr>)"
| "decode_child url_Parse u (SeverityEl s) = Inr (u\<lparr>Severity := s\<rparr>)"
| "decode_child url_Parse u (ReleaseEl s) = Inr (u\<lparr>Release := s\<rparr>)"
| "decode_child url_Parse u (DescriptionEl s) = Inr (u\<lparr>Description := s\<rparr>)"
| "decode_child url_Parse u (IssuedEl None) = Inr u"
| "decode_child url_Parse u (IssuedEl (Some v)) =
     (case date_UnmarshalXMLAttr v of
        Inl err \<Rightarrow> Inl (DateAttr err)
      | Inr d \<Rightarrow> Inr (u\<lparr>Issued := \<lparr>Date = Some d\<rparr>\<rparr>))"
| "decode_child url_Parse u (ReferencesEl rs) =
     (case decode_references url_Parse rs of
        Inl err \<Rightarrow> Inl err
      | Inr xs \<Rightarrow> Inr (u\<lparr>References := References u @ xs\<rparr>))"
| "decode_child url_Parse u (PkglistEl ps) = Inr (u\<lparr>Packages := Packages u @ ps\<rparr>)"
| "decode_child url_Parse u UnknownEl = Inr u"
| "decode_child url_Parse u (Malformed msg) = Inl (SyntaxError msg)"

fun decode_children ::
  "(string \<Rightarrow> string + href) \<Rightarrow> Update \<Rightarrow> child list \<Rightarrow> decode_error + Update" where
  "decode_children url_Parse u [] = Inr u"
| "decode_children url_Parse u (c # cs) =
     (case decode_child url_Parse u c of
        Inl err \<Rightarrow> Inl err
      | Inr u' \<Rightarrow> decode_children url_Parse u' cs)"

text \<open>\<open>d.DecodeElement(&u, &t)\<close> into \<open>u := types.Update{}\<close>: the attributes of the start
  tag first, then the children.\<close>

definition DecodeElement :: "(string \<Rightarrow> string + href) \<Rightarrow> element \<Rightarrow> decode_error + Update" where
  "DecodeElement url_Parse el =
     decode_children url_Parse
       (zero_Update\<lparr>Type := attr_type el, Status := attr_status el\<rparr>) (children el)"

section \<open>Parsing and filtering (package parser)\<close>

record filterConfig =
  beforeDate :: Time
  afterDate :: Time
  dateFormat :: string
  pkgWhiteList :: "string list"
  updateType :: string

text \<open>The \<open>error\<close> values of the program: those it builds with \<open>fmt.Errorf\<close>, and an error
  of a library, the operating system or the handler, kept by its message. \<open>RuntimePanic\<close>
  is no value of type \<open>error\<close>: it stands for a run that panics instead of returning.\<close>

datatype error =
    DecodingToken string
  | DecodingElement string decode_error
  | FailedOpeningFile string string
  | FailedScanningLines string string
  | FailedParsingDate string NumError
  | Foreign string
  | RuntimePanic string

text \<open>\<open>slices.Contains\<close>.\<close>

fun Contains :: "'a list \<Rightarrow> 'a \<Rightarrow> bool" where
  "Contains [] v = False"
| "Contains (x # xs) v = (if x = v then True else Contains xs v)"

text \<open>The loop of \<open>Parse\<close> over \<open>u.Packages\<close> that sets \<open>pkgMatch\<close> and breaks at the first
  package whose name is in the list.\<close>

fun pkgMatch :: "string list \<Rightarrow> Package list \<Rightarrow> bool" where
  "pkgMatch wl [] = False"
| "pkgMatch wl (pkg # pkgs) = (if Contains wl (Name pkg) then True else pkgMatch wl pkgs)"

text \<open>An \<open>UpdateHandlerFunc\<close> is a closure over mutable state: here a function from the
  update and the state before the call to the returned error (\<open>None\<close> for nil) and the
  state after it.\<close>

type_synonym 's UpdateHandlerFunc = "Update \<Rightarrow> 's \<Rightarrow> error option \<times> 's"

text \<open>\<open>Parse\<close>: the token loop. It returns the error (\<open>None\<close> for nil) and the state the
  handler's calls left.\<close>

fun Parse ::
  "(string \<Rightarrow> string + href) \<Rightarrow> token list \<Rightarrow> filterConfig \<Rightarrow> 's UpdateHandlerFunc \<Rightarrow> 's
     \<Rightarrow> error option \<times> 's" where
  "Parse url_Parse [] flt handler s = (None, s)"
| "Parse url_Parse (TokenError tokenErr # ts) flt handler s =
     (Some (DecodingToken tokenErr), s)"
| "Parse url_Parse (OtherToken # ts) flt handler s = Parse url_Parse ts flt handler s"
| "Parse url_Parse (StartUpdate t # ts) flt handler s =
     (case DecodeElement url_Parse t of
        Inl err \<Rightarrow> (Some (DecodingElement ''update'' err), s)
      | Inr u \<Rightarrow>
          if updateType flt \<noteq> [] \<and> Type u \<noteq> updateType flt
          then Parse url_Parse ts flt handler s
          else
            (case Date (Issued u) of
               None \<Rightarrow> Parse url_Parse ts flt handler s
             | Some uDate \<Rightarrow>
                 if Before uDate (beforeDate flt) \<and> After uDate (afterDate flt)
                 then
                   if length (pkgWhiteList flt) = 0 \<or> pkgMatch (pkgWhiteList flt) (Packages u)
                   then
                     (case handler u s of
                        (Some err, s') \<Rightarrow> (Some err, s')
                      | (None, s') \<Rightarrow> Parse url_Parse ts flt handler s')
                   else Parse url_Parse ts flt handler s
                 else Parse url_Parse ts flt handler s))"

text \<open>A handler that also records, in order, the updates it is called with: the record
  makes the calls of \<open>Parse\<close> observable for any handler.\<close>

definition logged :: "'s UpdateHandlerFunc \<Rightarrow> ('s \<times> Update list) UpdateHandlerFunc" where
  "logged handler = (\<lambda>u (s, calls). case handler u s of (err, s') \<Rightarrow> (err, (s', calls @ [u])))"

text \<open>The updates a token list holds: those of its \<open>update\<close> elements that
  \<open>DecodeElement\<close> decodes, in document order.\<close>

fun decoded :: "(string \<Rightarrow> string + href) \<Rightarrow> token list \<Rightarrow> Update list" where
  "decoded url_Parse [] = []"
| "decoded url_Parse (StartUpdate t # ts) =
     (case DecodeElement url_Parse t of
        Inl err \<Rightarrow> decoded url_Parse ts
      | Inr u \<Rightarrow> u # decoded url_Parse ts)"
| "decoded url_Parse (OtherToken # ts) = decoded url_Parse ts"
| "decoded url_Parse (TokenError e # ts) = decoded url_Parse ts"

text \<open>The filter predicate in the specification's words: the type equals
  \<open>updateType\<close> when that is set; the issued date is present and lies strictly after
  \<open>afterDate\<close> and strictly before \<open>beforeDate\<close>; the allow-list is empty or holds the
  name of one of the update's packages.\<close>

definition spec_filter_predicate :: "filterConfig \<Rightarrow> Update \<Rightarrow> bool" where
  "spec_filter_predicate flt u \<longleftrightarrow>
     (updateType flt \<noteq> [] \<longrightarrow> Type u = updateType flt) \<and>
     (case Date (Issued u) of
        None \<Rightarrow> False
      | Some d \<Rightarrow> After d (afterDate flt) \<and> Before d (beforeDate flt)) \<and>
     (pkgWhiteList flt = [] \<or> (\<exists>pkg \<in> set (Packages u). Name pkg \<in> set (pkgWhiteList flt)))"

text \<open>A valid base-10 integer in the specification's sense: an optional sign and one or
  more decimal digits.\<close>

definition spec_base10_integer :: "string \<Rightarrow> bool" where
  "spec_base10_integer v \<longleftrightarrow>
     (let ds = (if v \<noteq> [] \<and> (hd v = CHR ''+'' \<or> hd v = CHR ''-'') then tl v else v)
      in ds \<noteq> [] \<and> (\<forall>c \<in> set ds. digit_value c \<noteq> None))"

text \<open>A token that is no error of the tokenizer and, when it starts an \<open>update\<close> element,
  whose element \<open>DecodeElement\<close> decodes.\<close>

definition well_formed_token :: "(string \<Rightarrow> string + href) \<Rightarrow> token \<Rightarrow> bool" where
  "well_formed_token url_Parse tok =
     (case tok of
        StartUpdate t \<Rightarrow> (case DecodeElement url_Parse t of Inl err \<Rightarrow> False | Inr u \<Rightarrow> True)
      | OtherToken \<Rightarrow> True
      | TokenError tokenErr \<Rightarrow> False)"

section \<open>Concrete inputs\<close>

definition ex_url_Parse :: "string \<Rightarrow> string + href" where
  "ex_url_Parse v = (if v = [] then Inl ''empty url'' else Inr v)"

definition ex_package :: "string \<Rightarrow> Package" where
  "ex_package n =
     \<lparr>Name = n, Version = ''1.0'', pkg_Release = ''1'', Arch = ''x86_64'', Filename = []\<rparr>"

definition ex_element :: "string \<Rightarrow> string \<Rightarrow> string option \<Rightarrow> string list \<Rightarrow> element" where
  "ex_element ty ident date names =
     \<lparr>attr_type = ty, attr_status = ''stable'',
      children = [IdEl ident, IssuedEl date, PkglistEl (map ex_package names)]\<rparr>"

definition ex_update :: "string \<Rightarrow> string \<Rightarrow> Time option \<Rightarrow> string list \<Rightarrow> Update" where
  "ex_update ty ident date names =
     \<lparr>Type = ty, Status = ''stable'', ID = ident, Title = [], Severity = [], Release = [],
      Issued = \<lparr>Date = date\<rparr>, References = [], Description = [],
      Packages = map ex_package names\<rparr>"

text \<open>Security updates of \<open>curl\<close> or \<open>zlib\<close> issued between 1700000000 and 1700000100.\<close>

definition ex_filter :: filterConfig where
  "ex_filter =
     \<lparr>beforeDate = time_Unix 1700000100, afterDate = time_Unix 1700000000, dateFormat = [],
      pkgWhiteList = [''curl'', ''zlib''], updateType = ''security''\<rparr>"

text \<open>A handler that counts its calls and fails on the update named \<open>FAIL\<close>.\<close>

definition ex_handler :: "nat UpdateHandlerFunc" where
  "ex_handler u n =
     (if ID u = ''FAIL'' then (Some (Foreign ''write failed''), n) else (None, Suc n))"

text \<open>A handler that counts its calls and never fails.\<close>

definition ex_counter :: "nat UpdateHandlerFunc" where
  "ex_counter u n = (None, Suc n)"

text \<open>Seven updates: \<open>A\<close> and \<open>G\<close> pass; \<open>B\<close> has another type, \<open>C\<close> no date, \<open>D\<close> and
  \<open>E\<close> lie on the bounds of the window, \<open>F\<close> has no listed package.\<close>

definition ex_tokens :: "token list" where
  "ex_tokens =
     [OtherToken,
      StartUpdate (ex_element ''security'' ''A'' (Some ''1700000050'') [''vim'', ''curl'']),
      StartUpdate (ex_element ''bugfix'' ''B'' (Some ''1700000050'') [''curl'']),
      StartUpdate (ex_element ''security'' ''C'' None [''curl'']),
      StartUpdate (ex_element ''security'' ''D'' (Some ''1700000000'') [''curl'']),
      StartUpdate (ex_element ''security'' ''E'' (Some ''1700000100'') [''curl'']),
      StartUpdate (ex_element ''security'' ''F'' (Some ''1700000050'') [''vim'']),
      StartUpdate (ex_element ''security'' ''G'' (Some ''1700000051'') [''zlib'']),
      OtherToken]"

definition ex_prefix :: "token list" where
  "ex_prefix =
     [OtherToken,
      StartUpdate (ex_element ''security'' ''A'' (Some ''1700000050'') [''vim'', ''curl''])]"

definition ex_rest :: "token list" where
  "ex_rest = [StartUpdate (ex_element ''security'' ''G'' (Some ''1700000051'') [''zlib''])]"

section \<open>The package allow-list (readPackagesFile)\<close>

text \<open>The six ASCII bytes \<open>strings.TrimSpace\<close> removes: tab, line feed, vertical tab, form
  feed, carriage return and space.\<close>

definition asciiSpace :: "char \<Rightarrow> bool" where
  "asciiSpace c \<longleftrightarrow> (of_char c :: nat) \<in> {9, 10, 11, 12, 13, 32}"

text \<open>The UTF-8 encodings of the other code points of \<open>unicode.IsSpace\<close>: U+0085, U+00A0,
  U+1680, U+2000 to U+200A, U+2028, U+2029, U+202F, U+205F and U+3000.\<close>

definition unicode_spaces :: "string list" where
  "unicode_spaces =
     [[CHR 0xC2, CHR 0x85], [CHR 0xC2, CHR 0xA0], [CHR 0xE1, CHR 0x9A, CHR 0x80],
      [CHR 0xE2, CHR 0x80, CHR 0x80], [CHR 0xE2, CHR 0x80, CHR 0x81],
      [CHR 0xE2, CHR 0x80, CHR 0x82], [CHR 0xE2, CHR 0x80, CHR 0x83],
      [CHR 0xE2, CHR 0x80, CHR 0x84], [CHR 0xE2, CHR 0x80, CHR 0x85],
      [CHR 0xE2, CHR 0x80, CHR 0x86], [CHR 0xE2, CHR 0x80, CHR 0x87],
      [CHR 0xE2, CHR 0x80, CHR 0x88], [CHR 0xE2, CHR 0x80, CHR 0x89],
      [CHR 0xE2, CHR 0x80, CHR 0x8A], [CHR 0xE2, CHR 0x80, CHR 0xA8],
      [CHR 0xE2, CHR 0x80, CHR 0xA9], [CHR 0xE2, CHR 0x80, CHR 0xAF],
      [CHR 0xE2, CHR 0x81, CHR 0x9F], [CHR 0xE3, CHR 0x80, CHR 0x80]]"

text \<open>The number of bytes of the white-space rune a string starts with, and of the one it
  ends with; 0 when there is none.\<close>

definition space_prefix :: "string \<Rightarrow> nat" where
  "space_prefix s =
     (case s of
        [] \<Rightarrow> 0
      | c # _ \<Rightarrow>
          if asciiSpace c then 1
          else if take 2 s \<in> set unicode_spaces then 2
          else if take 3 s \<in> set unicode_spaces then 3
          else 0)"

definition space_suffix :: "string \<Rightarrow> nat" where
  "space_suffix s =
     (if s = [] then 0
      else if asciiSpace (last s) then 1
      else if 2 \<le> length s \<and> drop (length s - 2) s \<in> set unicode_spaces then 2
      else if 3 \<le> length s \<and> drop (length s - 3) s \<in> set unicode_spaces then 3
      else 0)"

text \<open>\<open>strings.TrimLeftFunc(s, unicode.IsSpace)\<close> and
  \<open>strings.TrimRightFunc(s, unicode.IsSpace)\<close>: white-space runes are removed from one end
  until none is left there.\<close>

function TrimLeftFunc :: "string \<Rightarrow> string" where
  "TrimLeftFunc s = (if space_prefix s = 0 then s else TrimLeftFunc (drop (space_prefix s) s))"
  by pat_completeness auto
termination
proof (relation "measure length")
  show "wf (measure length)" by simp
next
  fix s :: string
  assume "space_prefix s \<noteq> 0"
  then have "s \<noteq> []" by (auto simp: space_prefix_def)
  with \<open>space_prefix s \<noteq> 0\<close> show "(drop (space_prefix s) s, s) \<in> measure length"
    by simp
qed

function TrimRightFunc :: "string \<Rightarrow> string" where
  "TrimRightFunc s = (if space_suffix s = 0 then s else TrimRightFunc (take (length s - space_suffix s) s))"
  by pat_completeness auto
termination
proof (relation "measure length")
  show "wf (measure length)" by simp
next
  fix s :: string
  assume "space_suffix s \<noteq> 0"
  then have "s \<noteq> []" by (auto simp: space_suffix_def)
  with \<open>space_suffix s \<noteq> 0\<close> show "(take (length s - space_suffix s) s, s) \<in> measure length"
    by simp
qed

declare TrimLeftFunc.simps [simp del] TrimRightFunc.simps [simp del]

text \<open>\<open>strings.TrimSpace\<close>: the leading, then the trailing white-space runes removed. Its
  fast path for ASCII returns the same string.\<close>

definition TrimSpace :: "string \<Rightarrow> string" where
  "TrimSpace s = TrimRightFunc (TrimLeftFunc s)"

text \<open>\<open>strings.Split(s, sep)\<close> for a separator of one byte, as the source calls it: the
  fields between the separators, at least one.\<close>

fun Split :: "string \<Rightarrow> char \<Rightarrow> string list" where
  "Split [] sep = [[]]"
| "Split (c # cs) sep =
     (if c = sep then [] # Split cs sep
      else (case Split cs sep of [] \<Rightarrow> [[c]] | x # xs \<Rightarrow> (c # x) # xs))"

text \<open>A file as its readers see it: the tokens \<open>xml.Decoder\<close> delivers, the lines
  \<open>bufio.Scanner\<close> delivers (each without its end-of-line marker, an empty line as the
  empty string) and the error of the scanner after them, and the error of \<open>Close\<close>. The
  file system maps a path to the message of the error of \<open>os.Open\<close>, or to the file.\<close>

record File =
  file_tokens :: "token list"
  file_lines :: "string list"
  file_scan_err :: "string option"
  file_close_err :: "string option"

type_synonym FileSystem = "string \<Rightarrow> string + File"

text \<open>The loop \<open>for scanner.Scan()\<close>: the first field of every line is appended.
  \<open>pkgData[0]\<close> on an empty slice would panic.\<close>

fun scan_loop :: "string list \<Rightarrow> string list \<Rightarrow> error + string list" where
  "scan_loop [] packages = Inr packages"
| "scan_loop (line # rest) packages =
     (case Split (TrimSpace line) (CHR ''|'') of
        [] \<Rightarrow> Inl (RuntimePanic ''index out of range [0] with length 0'')
      | field # _ \<Rightarrow> scan_loop rest (packages @ [field]))"

definition readPackagesFile :: "FileSystem \<Rightarrow> string \<Rightarrow> error + string list" where
  "readPackagesFile fs pkgFile =
     (if pkgFile = [] then Inr []
      else
        (case fs pkgFile of
           Inl err \<Rightarrow> Inl (FailedOpeningFile pkgFile err)
         | Inr file \<Rightarrow>
             (case scan_loop (file_lines file) [] of
                Inl panic \<Rightarrow> Inl panic
              | Inr packages \<Rightarrow>
                  (case file_scan_err file of
                     Some err \<Rightarrow> Inl (FailedScanningLines pkgFile err)
                   | None \<Rightarrow> Inr packages))))"

text \<open>The first pipe-delimited field of a line, and the allow-list in the specification's
  words: the first field of every line that is not empty after trimming.\<close>

definition spec_first_field :: "string \<Rightarrow> string" where
  "spec_first_field s = takeWhile (\<lambda>c. c \<noteq> CHR ''|'') s"

definition spec_allow_list :: "string list \<Rightarrow> string list" where
  "spec_allow_list lines =
     map spec_first_field (filter (\<lambda>l. l \<noteq> []) (map TrimSpace lines))"

definition ex_packages_file :: File where
  "ex_packages_file =
     \<lparr>file_tokens = [],
      file_lines = [''curl|0|8.6.0|150600.4.21.1|x86_64'', [], ''  zlib|0|1.2.13|1.1|x86_64 ''],
      file_scan_err = None, file_close_err = None\<rparr>"

definition ex_fs :: FileSystem where
  "ex_fs path =
     (if path = ''sl-micro.packages'' then Inr ex_packages_file
      else Inl ''no such file or directory'')"

section \<open>Filter options\<close>

text \<open>A \<open>FilterOpt\<close> mutates the configuration and may fail: here it returns the error or
  the configuration after the call. \<open>time.Parse\<close> is library code, the parameter
  \<open>time_Parse\<close> (layout first, then the value).\<close>

type_synonym FilterOpt = "filterConfig \<Rightarrow> error + filterConfig"

definition parseTime :: "(string \<Rightarrow> string \<Rightarrow> error + Time) \<Rightarrow> string \<Rightarrow> string \<Rightarrow> error + Time" where
  "parseTime time_Parse date format =
     (if format = [] then
        (case ParseInt date of
           Inl err \<Rightarrow> Inl (FailedParsingDate date err)
         | Inr i \<Rightarrow> Inr (time_Unix i))
      else time_Parse format date)"

definition WithDateFormat :: "string \<Rightarrow> FilterOpt" where
  "WithDateFormat format = (\<lambda>f. Inr (f\<lparr>dateFormat := format\<rparr>))"

definition WithBeforeTime :: "(string \<Rightarrow> string \<Rightarrow> error + Time) \<Rightarrow> string \<Rightarrow> FilterOpt" where
  "WithBeforeTime time_Parse before =
     (\<lambda>f. case parseTime time_Parse before (dateFormat f) of
            Inl err \<Rightarrow> Inl err
          | Inr t \<Rightarrow> Inr (f\<lparr>beforeDate := t\<rparr>))"

definition WithAfterTime :: "(string \<Rightarrow> string \<Rightarrow> error + Time) \<Rightarrow> string \<Rightarrow> FilterOpt" where
  "WithAfterTime time_Parse after =
     (\<lambda>f. case parseTime time_Parse after (dateFormat f) of
            Inl err \<Rightarrow> Inl err
          | Inr t \<Rightarrow> Inr (f\<lparr>afterDate := t\<rparr>))"

definition WithPackagesFile :: "FileSystem \<Rightarrow> string \<Rightarrow> FilterOpt" where
  "WithPackagesFile fs packagesFile =
     (\<lambda>f. case readPackagesFile fs packagesFile of
            Inl err \<Rightarrow> Inl err
          | Inr packages \<Rightarrow> Inr (f\<lparr>pkgWhiteList := packages\<rparr>))"

definition WithUpdateType :: "string \<Rightarrow> FilterOpt" where
  "WithUpdateType uType = (\<lambda>f. Inr (f\<lparr>updateType := uType\<rparr>))"

text \<open>The loop of \<open>NewFilterConfig\<close> over the options: the first error ends it.\<close>

fun apply_opts :: "FilterOpt list \<Rightarrow> filterConfig \<Rightarrow> error + filterConfig" where
  "apply_opts [] fCfg = Inr fCfg"
| "apply_opts (opt # opts) fCfg =
     (case opt fCfg of Inl err \<Rightarrow> Inl err | Inr fCfg' \<Rightarrow> apply_opts opts fCfg')"

text \<open>\<open>NewFilterConfig\<close>. The parameter \<open>in_100_years\<close> is the value of
  \<open>time.Now().AddDate(100, 0, 0)\<close> at the call; the other fields start at their zero
  values.\<close>

definition NewFilterConfig :: "Time \<Rightarrow> FilterOpt list \<Rightarrow> error + filterConfig" where
  "NewFilterConfig in_100_years opts =
     apply_opts opts
       \<lparr>beforeDate = in_100_years, afterDate = time_Unix 0, dateFormat = [],
        pkgWhiteList = [], updateType = []\<rparr>"

section \<open>The command line (package updatesparser)\<close>

text \<open>The values \<open>RunE\<close> reads from the flags \<open>beforeDate\<close>, \<open>afterDate\<close>, \<open>packages\<close>,
  \<open>template\<close>, \<open>output\<close>, \<open>security\<close> and \<open>json\<close>.\<close>

record Flags =
  beforeStr :: string
  afterStr :: string
  packagesF :: string
  tmplF :: string
  outputF :: string
  security :: bool
  json :: bool

definition securityType :: string where
  "securityType = ''security''"

text \<open>The part of \<open>RunE\<close> between reading the flags and \<open>NewFilterConfig\<close>: the filter
  options it collects in \<open>fOpts\<close>, and the configuration it builds from them.\<close>

definition RunE_fOpts ::
  "(string \<Rightarrow> string \<Rightarrow> error + Time) \<Rightarrow> FileSystem \<Rightarrow> Flags \<Rightarrow> FilterOpt list" where
  "RunE_fOpts time_Parse fs flags =
     (if beforeStr flags \<noteq> [] then [WithBeforeTime time_Parse (beforeStr flags)] else []) @
     (if afterStr flags \<noteq> [] then [WithBeforeTime time_Parse (afterStr flags)] else []) @
     (if packagesF flags \<noteq> [] then [WithPackagesFile fs (packagesF flags)] else []) @
     (if security flags then [WithUpdateType securityType] else [])"

definition RunE_fCfg ::
  "(string \<Rightarrow> string \<Rightarrow> error + Time) \<Rightarrow> FileSystem \<Rightarrow> Time \<Rightarrow> Flags \<Rightarrow> error + filterConfig" where
  "RunE_fCfg time_Parse fs in_100_years flags =
     NewFilterConfig in_100_years (RunE_fOpts time_Parse fs flags)"

definition ex_time_Parse :: "string \<Rightarrow> string \<Rightarrow> error + Time" where
  "ex_time_Parse layout v = Inl (Foreign ''parsing time: cannot parse'')"

definition ex_in_100_years :: Time where
  "ex_in_100_years = \<lparr>sec = 4870000000 + unixToInternal, nsec = 250000000\<rparr>"

text \<open>The command line \<open>updatesparser --afterDate 1700000000 updateinfo.xml\<close>.\<close>

definition ex_flags_after :: Flags where
  "ex_flags_after =
     \<lparr>beforeStr = [], afterStr = ''1700000000'', packagesF = [], tmplF = [], outputF = [],
      security = False, json = False\<rparr>"

section \<open>Rendering (ParseToOutput)\<close>

text \<open>An \<open>io.Writer\<close> with state \<open>'w\<close>: \<open>Write\<close> takes the bytes and the state before and
  returns the error and the state after (the source ignores the count of bytes).\<close>

type_synonym 'w Writer = "string \<Rightarrow> 'w \<Rightarrow> error option \<times> 'w"

text \<open>The data a template is executed on: \<open>nil\<close>, or the update.\<close>

datatype tmpl_data = NilData | UpdateData Update

text \<open>A parsed \<open>*template.Template\<close> by its method \<open>ExecuteTemplate(wr, name, data)\<close>:
  text/template is library code.\<close>

type_synonym 'w Template = "'w Writer \<Rightarrow> string \<Rightarrow> tmpl_data \<Rightarrow> 'w \<Rightarrow> error option \<times> 'w"

text \<open>\<open>outputConfig\<close>. The field \<open>output_writer\<close> is \<open>out.output.Write\<close>; the state of the
  writer is passed to \<open>ParseToOutput\<close> and returned by it. \<open>close\<close> and \<open>template\<close> may
  be nil.\<close>

record 'w outputConfig =
  output_writer :: "'w Writer"
  close :: "('w \<Rightarrow> error option \<times> 'w) option"
  template :: "'w Template option"
  jsonOut :: bool

text \<open>The handler of the template strategy, a closure over \<open>first\<close> and the writer.\<close>

definition template_handler :: "'w Template \<Rightarrow> 'w Writer \<Rightarrow> (bool \<times> 'w) UpdateHandlerFunc" where
  "template_handler t wr u =
     (\<lambda>(first, w).
        case (if \<not> first then t wr ''join'' NilData w else (None, w)) of
          (Some err, w1) \<Rightarrow> (Some err, (first, w1))
        | (None, w1) \<Rightarrow>
            (case t wr ''body'' (UpdateData u) w1 of
               (Some err, w2) \<Rightarrow> (Some err, (first, w2))
             | (None, w2) \<Rightarrow> (None, (False, w2))))"

text \<open>The handler of the JSON strategy, a closure over the slice \<open>updates\<close>.\<close>

definition json_handler :: "Update list UpdateHandlerFunc" where
  "json_handler u updates = (None, updates @ [u])"

text \<open>The body of \<open>ParseToOutput\<close>, before the deferred call of \<open>out.close\<close>.
  \<open>json.MarshalIndent\<close> is library code, the parameter \<open>json_MarshalIndent\<close>. Executing a
  nil template panics.\<close>

definition ParseToOutput_body ::
  "(string \<Rightarrow> string + href) \<Rightarrow> (Update list \<Rightarrow> error + string) \<Rightarrow> token list \<Rightarrow> filterConfig
     \<Rightarrow> 'w outputConfig \<Rightarrow> 'w \<Rightarrow> error option \<times> 'w" where
  "ParseToOutput_body url_Parse json_MarshalIndent reader flt out w =
     (if \<not> jsonOut out then
        (case template out of
           None \<Rightarrow> (Some (RuntimePanic ''nil pointer dereference''), w)
         | Some t \<Rightarrow>
             (case t (output_writer out) ''header'' NilData w of
                (Some err, w1) \<Rightarrow> (Some err, w1)
              | (None, w1) \<Rightarrow>
                  (case Parse url_Parse reader flt (template_handler t (output_writer out)) (True, w1) of
                     (Some err, (first, w2)) \<Rightarrow> (Some err, w2)
                   | (None, (first, w2)) \<Rightarrow> t (output_writer out) ''footer'' NilData w2)))
      else
        (case Parse url_Parse reader flt json_handler [] of
           (Some err, updates) \<Rightarrow> (Some err, w)
         | (None, updates) \<Rightarrow>
             (case json_MarshalIndent updates of
                Inl err \<Rightarrow> (Some err, w)
              | Inr data \<Rightarrow> output_writer out data w)))"

text \<open>The deferred function of \<open>ParseToOutput\<close> and of \<open>ParseFileToOutput\<close>: the error of
  closing becomes the result when there is no other.\<close>

definition deferred_close :: "error option \<Rightarrow> error option \<Rightarrow> error option" where
  "deferred_close retErr err = (if retErr = None \<and> err \<noteq> None then err else retErr)"

definition ParseToOutput ::
  "(string \<Rightarrow> string + href) \<Rightarrow> (Update list \<Rightarrow> error + string) \<Rightarrow> token list \<Rightarrow> filterConfig
     \<Rightarrow> 'w outputConfig \<Rightarrow> 'w \<Rightarrow> error option \<times> 'w" where
  "ParseToOutput url_Parse json_MarshalIndent reader flt out w =
     (case ParseToOutput_body url_Parse json_MarshalIndent reader flt out w of
        (retErr, w1) \<Rightarrow>
          (case close out of
             None \<Rightarrow> (retErr, w1)
           | Some cl \<Rightarrow> (case cl w1 of (err, w2) \<Rightarrow> (deferred_close retErr err, w2))))"

text \<open>\<open>ParseFileToOutput\<close>: when \<open>os.Open\<close> fails the source returns nil.\<close>

definition ParseFileToOutput ::
  "(string \<Rightarrow> string + href) \<Rightarrow> (Update list \<Rightarrow> error + string) \<Rightarrow> FileSystem \<Rightarrow> string
     \<Rightarrow> filterConfig \<Rightarrow> 'w outputConfig \<Rightarrow> 'w \<Rightarrow> error option \<times> 'w" where
  "ParseFileToOutput url_Parse json_MarshalIndent fs updateXML flt out w =
     (case fs updateXML of
        Inl err \<Rightarrow> (None, w)
      | Inr f \<Rightarrow>
          (case ParseToOutput url_Parse json_MarshalIndent (file_tokens f) flt out w of
             (retErr, w1) \<Rightarrow>
               (deferred_close retErr (map_option Foreign (file_close_err f)), w1)))"

text \<open>The sections of a rendered change log in the specification's words: the header, the
  bodies of the records in order with one join between two consecutive bodies, the
  footer.\<close>

fun spec_joined_bodies :: "Update list \<Rightarrow> (string \<times> tmpl_data) list" where
  "spec_joined_bodies [] = []"
| "spec_joined_bodies [u] = [(''body'', UpdateData u)]"
| "spec_joined_bodies (u # v # us) =
     (''body'', UpdateData u) # (''join'', NilData) # spec_joined_bodies (v # us)"

definition spec_sections :: "Update list \<Rightarrow> (string \<times> tmpl_data) list" where
  "spec_sections us = (''header'', NilData) # spec_joined_bodies us @ [(''footer'', NilData)]"

text \<open>Executing named templates one after the other on the same writer, up to the first
  error.\<close>

fun execute_all ::
  "'w Template \<Rightarrow> 'w Writer \<Rightarrow> (string \<times> tmpl_data) list \<Rightarrow> 'w \<Rightarrow> error option \<times> 'w" where
  "execute_all t wr [] w = (None, w)"
| "execute_all t wr ((name, d) # rest) w =
     (case t wr name d w of
        (Some err, w1) \<Rightarrow> (Some err, w1)
      | (None, w1) \<Rightarrow> execute_all t wr rest w1)"

text \<open>A writer that keeps what was written, a template that writes the name of the
  section (and the identifier of the update), a JSON encoder that lists the
  identifiers.\<close>

definition ex_Write :: "string Writer" where
  "ex_Write p w = (None, w @ p)"

definition ex_template :: "string Template" where
  "ex_template wr name d w =
     (if name \<in> set [''header'', ''join'', ''footer''] then wr (''<'' @ name @ ''>'') w
      else if name = ''body'' then
        (case d of NilData \<Rightarrow> wr ''<body>'' w | UpdateData u \<Rightarrow> wr (''<body '' @ ID u @ ''>'') w)
      else (Some (Foreign ''no such template''), w))"

definition ex_MarshalIndent :: "Update list \<Rightarrow> error + string" where
  "ex_MarshalIndent updates = Inr (concat (map ID updates))"

definition ex_out :: "string outputConfig" where
  "ex_out = \<lparr>output_writer = ex_Write, close = None, template = Some ex_template, jsonOut = False\<rparr>"

text \<open>The records that survive the filter, and the sections after the first body: a join
  before every further body.\<close>

definition survivors :: "(string \<Rightarrow> string + href) \<Rightarrow> filterConfig \<Rightarrow> token list \<Rightarrow> Update list" where
  "survivors url_Parse flt reader = filter (spec_filter_predicate flt) (decoded url_Parse reader)"

definition later_bodies :: "Update list \<Rightarrow> (string \<times> tmpl_data) list" where
  "later_bodies us = concat (map (\<lambda>u. [(''join'', NilData), (''body'', UpdateData u)]) us)"

section \<open>Properties of the library model\<close>

lemma ParseUint_loop_append:
  "ParseUint_loop n (xs @ ys) =
     (case ParseUint_loop n xs of Inl e \<Rightarrow> Inl e | Inr m \<Rightarrow> ParseUint_loop m ys)"
  by (induction xs arbitrary: n) (auto split: option.splits)

lemma digit_value_digits:
  assumes "d < 10"
  shows "digit_value (digits ! d) = Some d"
proof -
  from assms consider "d = 0" | "d = 1" | "d = 2" | "d = 3" | "d = 4"
    | "d = 5" | "d = 6" | "d = 7" | "d = 8" | "d = 9"
    by atomize_elim arith
  then show ?thesis
    by cases (simp_all add: digits_def digit_value_def)
qed

lemma ParseUint_loop_decimal:
  "n \<le> maxUint64 \<Longrightarrow> ParseUint_loop 0 (decimal n) = Inr n"
proof (induction n rule: decimal.induct)
  case (1 n)
  show ?case
  proof (cases "n < 10")
    case True
    then show ?thesis
      using "1.prems" by (simp add: decimal.simps [of n] digit_value_digits)
  next
    case False
    have le: "n div 10 \<le> maxUint64" using "1.prems" by simp
    have ih: "ParseUint_loop 0 (decimal (n div 10)) = Inr (n div 10)"
      using "1.IH" [OF False le] .
    have small: "\<not> n div 10 \<ge> maxUint64 div 10 + 1"
      using "1.prems" div_le_mono [of n maxUint64 10] by simp
    have recompose: "n div 10 * 10 + n mod 10 = n" by simp
    show ?thesis
      using False "1.prems" ih small
      by (simp add: decimal.simps [of n] ParseUint_loop_append digit_value_digits recompose)
  qed
qed

lemma decimal_not_Nil: "decimal n \<noteq> []"
  by (subst decimal.simps) simp

lemma hd_decimal_digit: "digit_value (hd (decimal n)) \<noteq> None"
proof (induction n rule: decimal.induct)
  case (1 n)
  show ?case
  proof (cases "n < 10")
    case True
    then show ?thesis by (simp add: decimal.simps [of n] digit_value_digits)
  next
    case False
    then show ?thesis
      using "1.IH" decimal_not_Nil [of "n div 10"] by (simp add: decimal.simps [of n])
  qed
qed

lemma hd_decimal_no_sign: "hd (decimal n) \<noteq> CHR ''-'' \<and> hd (decimal n) \<noteq> CHR ''+''"
proof -
  have "digit_value (CHR ''-'') = None" "digit_value (CHR ''+'') = None"
    by (simp_all add: digit_value_def)
  then show ?thesis using hd_decimal_digit [of n] by metis
qed

lemma ParseUint_decimal: "n \<le> maxUint64 \<Longrightarrow> ParseUint (decimal n) = Inr n"
  by (simp add: ParseUint_def decimal_not_Nil ParseUint_loop_decimal)

lemma of_nat_nat_sint: "0 \<le> sint (i :: int64) \<Longrightarrow> (of_nat (nat (sint i)) :: int64) = i"
  by simp

lemma neg_of_nat_nat_sint:
  "sint (i :: int64) < 0 \<Longrightarrow> - (of_nat (nat (- sint i)) :: int64) = i"
  by simp

lemma sint_int64_bounds: "- (2 ^ 63) \<le> sint (i :: int64) \<and> sint i < 2 ^ 63"
  using sint_ge [of i] sint_lt [of i] by simp

lemma ParseInt_FormatInt: "ParseInt (FormatInt i) = Inr i"
proof (cases "sint i < 0")
  case True
  let ?m = "nat (- sint i)"
  have m: "?m \<le> 2 ^ 63" using sint_int64_bounds [of i] by (simp add: nat_le_iff)
  then have "?m \<le> maxUint64" by (simp add: maxUint64_def)
  then have "ParseUint (decimal ?m) = Inr ?m" by (rule ParseUint_decimal)
  then show ?thesis
    using True m neg_of_nat_nat_sint [OF True]
    by (simp add: ParseInt_def FormatInt_def)
next
  case False
  let ?m = "nat (sint i)"
  have m: "?m < 2 ^ 63" using sint_int64_bounds [of i] False by (simp add: nat_less_iff)
  then have "?m \<le> maxUint64" by (simp add: maxUint64_def)
  then have "ParseUint (decimal ?m) = Inr ?m" by (rule ParseUint_decimal)
  then show ?thesis
    using False m hd_decimal_no_sign [of ?m] of_nat_nat_sint [of i]
    by (simp add: ParseInt_def FormatInt_def decimal_not_Nil)
qed

section \<open>The calls of the handler\<close>

lemma Contains_iff: "Contains xs v \<longleftrightarrow> v \<in> set xs"
  by (induction xs) auto

lemma pkgMatch_iff: "pkgMatch wl pkgs \<longleftrightarrow> (\<exists>pkg \<in> set pkgs. Name pkg \<in> set wl)"
  by (induction pkgs) (auto simp: Contains_iff)

lemma Parse_StartUpdate:
  "DecodeElement up t = Inr u \<Longrightarrow>
   Parse up (StartUpdate t # ts) flt h s =
     (if spec_filter_predicate flt u
      then (case h u s of
              (Some err, s') \<Rightarrow> (Some err, s')
            | (None, s') \<Rightarrow> Parse up ts flt h s')
      else Parse up ts flt h s)"
  by (auto simp: spec_filter_predicate_def pkgMatch_iff split: option.splits)

lemma Parse_decode_error:
  "DecodeElement up t = Inl err \<Longrightarrow>
   Parse up (StartUpdate t # ts) flt h s = (Some (DecodingElement ''update'' err), s)"
  by simp

lemma Parse_logged_calls:
  "Parse up ts flt (logged h) (s, calls0) = (r, (s', calls)) \<Longrightarrow>
   \<exists>k \<le> length ts.
     calls = calls0 @ filter (spec_filter_predicate flt) (decoded up (take k ts)) \<and>
     (r = None \<longrightarrow> k = length ts)"
proof (induction ts arbitrary: s calls0)
  case Nil
  then show ?case by simp
next
  case (Cons t ts)
  show ?case
  proof (cases t)
    case (StartUpdate el)
    show ?thesis
    proof (cases "DecodeElement up el")
      case (Inl err)
      with Cons.prems StartUpdate have "calls = calls0" "r \<noteq> None" by auto
      then show ?thesis by (intro exI [of _ 0]) auto
    next
      case (Inr u)
      note step = Parse_StartUpdate [OF Inr, of ts flt "logged h" "(s, calls0)"]
      show ?thesis
      proof (cases "spec_filter_predicate flt u")
        case False
        with Cons.prems StartUpdate step
        have "Parse up ts flt (logged h) (s, calls0) = (r, (s', calls))" by simp
        from Cons.IH [OF this] obtain k where
          k: "k \<le> length ts"
             "calls = calls0 @ filter (spec_filter_predicate flt) (decoded up (take k ts))"
             "r = None \<longrightarrow> k = length ts" by blast
        show ?thesis
          using k False StartUpdate Inr by (intro exI [of _ "Suc k"]) simp
      next
        case True
        obtain e s1 where hs: "h u s = (e, s1)" by (cases "h u s")
        show ?thesis
        proof (cases e)
          case None
          with Cons.prems StartUpdate step True hs
          have "Parse up ts flt (logged h) (s1, calls0 @ [u]) = (r, (s', calls))"
            by (simp add: logged_def)
          from Cons.IH [OF this] obtain k where
            k: "k \<le> length ts"
               "calls = (calls0 @ [u]) @ filter (spec_filter_predicate flt) (decoded up (take k ts))"
               "r = None \<longrightarrow> k = length ts" by blast
          show ?thesis
            using k True StartUpdate Inr by (intro exI [of _ "Suc k"]) simp
        next
          case (Some err)
          with Cons.prems StartUpdate step True hs
          have "calls = calls0 @ [u]" "r \<noteq> None" by (auto simp: logged_def)
          then show ?thesis
            using True StartUpdate Inr by (intro exI [of _ "Suc 0"]) auto
        qed
      qed
    qed
  next
    case OtherToken
    with Cons.prems have "Parse up ts flt (logged h) (s, calls0) = (r, (s', calls))" by simp
    from Cons.IH [OF this] obtain k where
      k: "k \<le> length ts"
         "calls = calls0 @ filter (spec_filter_predicate flt) (decoded up (take k ts))"
         "r = None \<longrightarrow> k = length ts" by blast
    show ?thesis
      using k OtherToken by (intro exI [of _ "Suc k"]) simp
  next
    case (TokenError e)
    with Cons.prems have "calls = calls0" "r \<noteq> None" by auto
    then show ?thesis by (intro exI [of _ 0]) auto
  qed
qed

lemmas ex_defs = DecodeElement_def ex_element_def ex_update_def zero_Update_def
  date_UnmarshalXMLAttr_def ParseInt_def ParseUint_def digit_value_def maxUint64_def
  ex_filter_def ex_handler_def ex_tokens_def ex_package_def time_Unix_def unixToInternal_def
  Before_def After_def logged_def

lemma ex_run:
  "Parse ex_url_Parse ex_tokens ex_filter (logged ex_handler) (0, []) =
     (None, (2, [ex_update ''security'' ''A'' (Some (time_Unix 1700000050)) [''vim'', ''curl''],
                 ex_update ''security'' ''G'' (Some (time_Unix 1700000051)) [''zlib'']]))"
  by (simp add: ex_defs)

text \<open>C1: for every update element \<open>Parse\<close> decodes, the handler is called if and only if
  the update satisfies the filter predicate: its type equals \<open>updateType\<close> when that is
  not empty, its issued date is present and strictly inside the window, and the allow-list
  is empty or names one of its packages. With \<open>k\<close> the number of tokens read before
  \<open>Parse\<close> returned, the calls are, in order, the decoded updates among the first \<open>k\<close>
  tokens that satisfy the predicate; a run that returns no error read every token.\<close>

theorem Parse_calls_handler_iff_filter_predicate:
  assumes "Parse url_Parse ts flt (logged handler) (s, []) = (r, (s', calls))"
  shows "\<exists>k \<le> length ts.
           calls = filter (spec_filter_predicate flt) (decoded url_Parse (take k ts)) \<and>
           (r = None \<longrightarrow> k = length ts)"
  using Parse_logged_calls [OF assms] by simp

theorem Parse_calls_handler_iff_filter_predicate_witness:
  "Parse ex_url_Parse ex_tokens ex_filter (logged ex_handler) (0, []) =
     (None, (2, [ex_update ''security'' ''A'' (Some (time_Unix 1700000050)) [''vim'', ''curl''],
                 ex_update ''security'' ''G'' (Some (time_Unix 1700000051)) [''zlib'']])) \<and>
   filter (spec_filter_predicate ex_filter) (decoded ex_url_Parse ex_tokens) =
     [ex_update ''security'' ''A'' (Some (time_Unix 1700000050)) [''vim'', ''curl''],
      ex_update ''security'' ''G'' (Some (time_Unix 1700000051)) [''zlib'']]"
  using Parse_calls_handler_iff_filter_predicate [OF ex_run] ex_run by auto

lemma not_Before_self: "\<not> Before t t"
  by (simp add: Before_def)

lemma not_After_self: "\<not> After t t"
  by (simp add: After_def)

lemma Parse_logged_calls_pass:
  assumes "Parse url_Parse ts flt (logged handler) (s, []) = (r, (s', calls))"
  shows "\<forall>u \<in> set calls. spec_filter_predicate flt u"
proof -
  from Parse_logged_calls [OF assms] obtain k where
    "calls = [] @ filter (spec_filter_predicate flt) (decoded url_Parse (take k ts))" by blast
  then show ?thesis by simp
qed

text \<open>C2: whatever the filter configuration, an update whose issued date is absent is never
  handed to the handler: it is not among the calls of any run of \<open>Parse\<close>.\<close>

theorem Parse_never_calls_handler_without_issued_date:
  assumes "Parse url_Parse ts flt (logged handler) (s, []) = (r, (s', calls))"
    and "Date (Issued u) = None"
  shows "u \<notin> set calls"
  using Parse_logged_calls_pass [OF assms(1)] assms(2)
  by (auto simp: spec_filter_predicate_def)

theorem Parse_never_calls_handler_without_issued_date_witness:
  "DecodeElement ex_url_Parse (ex_element ''security'' ''C'' None [''curl'']) =
     Inr (ex_update ''security'' ''C'' None [''curl'']) \<and>
   StartUpdate (ex_element ''security'' ''C'' None [''curl'']) \<in> set ex_tokens \<and>
   Date (Issued (ex_update ''security'' ''C'' None [''curl''])) = None \<and>
   ex_update ''security'' ''C'' None [''curl''] \<notin>
     set [ex_update ''security'' ''A'' (Some (time_Unix 1700000050)) [''vim'', ''curl''],
          ex_update ''security'' ''G'' (Some (time_Unix 1700000051)) [''zlib'']]"
proof -
  have absent: "Date (Issued (ex_update ''security'' ''C'' None [''curl''])) = None"
    by (simp add: ex_update_def)
  have "DecodeElement ex_url_Parse (ex_element ''security'' ''C'' None [''curl'']) =
     Inr (ex_update ''security'' ''C'' None [''curl''])"
    by (simp add: ex_defs)
  moreover have "StartUpdate (ex_element ''security'' ''C'' None [''curl'']) \<in> set ex_tokens"
    by (simp add: ex_tokens_def)
  ultimately show ?thesis
    using Parse_never_calls_handler_without_issued_date [OF ex_run absent] absent by blast
qed

section \<open>The date window\<close>

text \<open>C3: the window is exclusive on both ends. An update issued exactly at \<open>afterDate\<close> or
  exactly at \<open>beforeDate\<close> is not among the calls of any run of \<open>Parse\<close>.\<close>

theorem Parse_date_window_excludes_bounds:
  assumes "Parse url_Parse ts flt (logged handler) (s, []) = (r, (s', calls))"
    and "Date (Issued u) = Some d"
    and "d = afterDate flt \<or> d = beforeDate flt"
  shows "u \<notin> set calls"
  using Parse_logged_calls_pass [OF assms(1)] assms(2,3)
  by (auto simp: spec_filter_predicate_def not_Before_self not_After_self)

theorem Parse_date_window_excludes_bounds_witness:
  "Date (Issued (ex_update ''security'' ''D'' (Some (time_Unix 1700000000)) [''curl''])) =
     Some (afterDate ex_filter) \<and>
   Date (Issued (ex_update ''security'' ''E'' (Some (time_Unix 1700000100)) [''curl''])) =
     Some (beforeDate ex_filter) \<and>
   ex_update ''security'' ''D'' (Some (time_Unix 1700000000)) [''curl''] \<notin>
     set [ex_update ''security'' ''A'' (Some (time_Unix 1700000050)) [''vim'', ''curl''],
          ex_update ''security'' ''G'' (Some (time_Unix 1700000051)) [''zlib'']] \<and>
   ex_update ''security'' ''E'' (Some (time_Unix 1700000100)) [''curl''] \<notin>
     set [ex_update ''security'' ''A'' (Some (time_Unix 1700000050)) [''vim'', ''curl''],
          ex_update ''security'' ''G'' (Some (time_Unix 1700000051)) [''zlib'']]"
proof -
  have d: "Date (Issued (ex_update ''security'' ''D'' (Some (time_Unix 1700000000)) [''curl''])) =
     Some (afterDate ex_filter)"
    by (simp add: ex_update_def ex_filter_def)
  have e: "Date (Issued (ex_update ''security'' ''E'' (Some (time_Unix 1700000100)) [''curl''])) =
     Some (beforeDate ex_filter)"
    by (simp add: ex_update_def ex_filter_def)
  show ?thesis
    using Parse_date_window_excludes_bounds [OF ex_run d]
      Parse_date_window_excludes_bounds [OF ex_run e] d e by blast
qed

section \<open>The issued date in JSON\<close>

text \<open>C10: every update \<open>Parse\<close> hands to its handler has an issued date, so
  \<open>Issued.MarshalJSON\<close> returns on it (the quoted Unix seconds); on an \<open>Issued\<close> whose
  date is absent the same method dereferences a nil pointer.\<close>

theorem MarshalJSON_safe_on_handled_updates:
  assumes "Parse url_Parse ts flt (logged handler) (s, []) = (r, (s', calls))"
  shows "(\<forall>u \<in> set calls. \<exists>d. Date (Issued u) = Some d \<and>
            MarshalJSON (Issued u) = Returned (Sprintf_q (FormatInt (Time_Unix d)))) \<and>
         MarshalJSON \<lparr>Date = None\<rparr> = NilPointerDereference"
  using Parse_logged_calls_pass [OF assms]
  by (auto simp: spec_filter_predicate_def MarshalJSON_def split: option.splits)

lemma FormatInt_ex: "FormatInt (Time_Unix (time_Unix 1700000050)) = ''1700000050''"
  by (simp add: FormatInt_def Time_Unix_def time_Unix_def decimal.simps digits_def)

theorem MarshalJSON_safe_on_handled_updates_witness:
  "MarshalJSON (Issued (ex_update ''security'' ''A'' (Some (time_Unix 1700000050)) [''vim'', ''curl''])) =
     Returned (CHR 0x22 # ''1700000050'' @ [CHR 0x22]) \<and>
   MarshalJSON \<lparr>Date = None\<rparr> = NilPointerDereference"
proof -
  let ?A = "ex_update ''security'' ''A'' (Some (time_Unix 1700000050)) [''vim'', ''curl'']"
  have "?A \<in> set [?A, ex_update ''security'' ''G'' (Some (time_Unix 1700000051)) [''zlib'']]"
    by simp
  with MarshalJSON_safe_on_handled_updates [OF ex_run]
  obtain d where d: "Date (Issued ?A) = Some d"
    "MarshalJSON (Issued ?A) = Returned (Sprintf_q (FormatInt (Time_Unix d)))"
    and nil: "MarshalJSON \<lparr>Date = None\<rparr> = NilPointerDereference"
    by blast
  from d(1) have "d = time_Unix 1700000050" by (simp add: ex_update_def)
  with d(2) nil show ?thesis by (simp add: FormatInt_ex Sprintf_q_def)
qed

lemma digits_in_decimal_digits:
  assumes "d < 10"
  shows "digits ! d \<in> set ''0123456789''"
proof -
  from assms consider "d = 0" | "d = 1" | "d = 2" | "d = 3" | "d = 4"
    | "d = 5" | "d = 6" | "d = 7" | "d = 8" | "d = 9"
    by atomize_elim arith
  then show ?thesis
    by cases (simp_all add: digits_def)
qed

lemma set_decimal: "set (decimal n) \<subseteq> set ''0123456789''"
proof (induction n rule: decimal.induct)
  case (1 n)
  show ?case
  proof (cases "n < 10")
    case True
    then show ?thesis
      using digits_in_decimal_digits [of n] by (simp add: decimal.simps [of n])
  next
    case False
    then show ?thesis
      using "1.IH" digits_in_decimal_digits [of "n mod 10"]
      by (simp add: decimal.simps [of n])
  qed
qed

lemma FormatInt_plain: "set (FormatInt i) \<subseteq> set ''-0123456789''"
proof -
  have sub: "set ''0123456789'' \<subseteq> set ''-0123456789''"
    by (rule set_subset_Cons)
  show ?thesis
  proof (cases "sint i < 0")
    case True
    then have "set (FormatInt i) = insert CHR ''-'' (set (decimal (nat (- sint i))))"
      by (simp add: FormatInt_def)
    also have "\<dots> \<subseteq> insert CHR ''-'' (set ''0123456789'')"
      using set_decimal [of "nat (- sint i)"] by (rule insert_mono)
    also have "\<dots> = set ''-0123456789''"
      by (rule list.set(2) [symmetric])
    finally show ?thesis .
  next
    case False
    then have "set (FormatInt i) = set (decimal (nat (sint i)))"
      by (simp add: FormatInt_def)
    also have "\<dots> \<subseteq> set ''0123456789''"
      by (rule set_decimal)
    also note sub
    finally show ?thesis .
  qed
qed

lemma Time_Unix_time_Unix: "Time_Unix (time_Unix ts) = ts"
  by (simp add: Time_Unix_def time_Unix_def)

text \<open>C6: the round trip of the issued date. For every 64-bit timestamp \<open>ts\<close>, the
  attribute unmarshaler decodes the decimal string of \<open>ts\<close> to the instant \<open>ts\<close> seconds
  after the epoch, and \<open>Issued.MarshalJSON\<close> of that instant is the same decimal string
  between double quotes: digits and at most a minus sign, not an ISO date. More generally,
  whatever attribute value \<open>v\<close> the unmarshaler accepts, the JSON of the decoded date is the
  quoted decimal string of the integer \<open>ParseInt\<close> read from \<open>v\<close>.\<close>

theorem issued_date_round_trip:
  "date_UnmarshalXMLAttr (FormatInt ts) = Inr (time_Unix ts) \<and>
   MarshalJSON \<lparr>Date = Some (time_Unix ts)\<rparr> = Returned (CHR 0x22 # FormatInt ts @ [CHR 0x22]) \<and>
   set (FormatInt ts) \<subseteq> set ''-0123456789'' \<and>
   (date_UnmarshalXMLAttr v = Inr d \<longrightarrow>
      (\<exists>i. ParseInt v = Inr i \<and>
           MarshalJSON \<lparr>Date = Some d\<rparr> = Returned (CHR 0x22 # FormatInt i @ [CHR 0x22])))"
proof (intro conjI impI)
  show "date_UnmarshalXMLAttr (FormatInt ts) = Inr (time_Unix ts)"
    by (simp add: date_UnmarshalXMLAttr_def ParseInt_FormatInt)
  show "MarshalJSON \<lparr>Date = Some (time_Unix ts)\<rparr> =
      Returned (CHR 0x22 # FormatInt ts @ [CHR 0x22])"
    by (simp add: MarshalJSON_def Sprintf_q_def Time_Unix_time_Unix)
  show "set (FormatInt ts) \<subseteq> set ''-0123456789''"
    by (rule FormatInt_plain)
next
  assume "date_UnmarshalXMLAttr v = Inr d"
  then obtain i where "ParseInt v = Inr i" "d = time_Unix i"
    by (auto simp: date_UnmarshalXMLAttr_def split: sum.splits)
  then show "\<exists>i. ParseInt v = Inr i \<and>
      MarshalJSON \<lparr>Date = Some d\<rparr> = Returned (CHR 0x22 # FormatInt i @ [CHR 0x22])"
    by (simp add: MarshalJSON_def Sprintf_q_def Time_Unix_time_Unix)
qed

lemma FormatInt_1700000050: "FormatInt 1700000050 = ''1700000050''"
  by (simp add: FormatInt_def decimal.simps digits_def)

lemma ParseInt_signed_zeros: "ParseInt ''+007'' = Inr 7"
  by (simp add: ParseInt_def ParseUint_def digit_value_def maxUint64_def)

lemma FormatInt_7: "FormatInt 7 = ''7''"
  by (simp add: FormatInt_def decimal.simps digits_def)

theorem issued_date_round_trip_witness:
  "date_UnmarshalXMLAttr ''1700000050'' = Inr (time_Unix 1700000050) \<and>
   MarshalJSON \<lparr>Date = Some (time_Unix 1700000050)\<rparr> =
     Returned (CHR 0x22 # ''1700000050'' @ [CHR 0x22]) \<and>
   date_UnmarshalXMLAttr ''+007'' = Inr (time_Unix 7) \<and>
   MarshalJSON \<lparr>Date = Some (time_Unix 7)\<rparr> = Returned (CHR 0x22 # ''7'' @ [CHR 0x22])"
proof -
  have dec: "date_UnmarshalXMLAttr ''+007'' = Inr (time_Unix 7)"
    by (simp add: date_UnmarshalXMLAttr_def ParseInt_signed_zeros)
  show ?thesis
    using issued_date_round_trip [of 1700000050 "''+007''" "time_Unix 7"] dec
    by (simp add: FormatInt_1700000050 ParseInt_signed_zeros FormatInt_7)
qed

section \<open>Errors of Parse\<close>

lemma ParseUint_loop_non_digit:
  "\<exists>c \<in> set cs. digit_value c = None \<Longrightarrow> \<exists>e. ParseUint_loop n cs = Inl e"
  by (induction cs arbitrary: n) (auto split: option.splits)

lemma ParseUint_fails:
  "cs = [] \<or> (\<exists>c \<in> set cs. digit_value c = None) \<Longrightarrow> \<exists>e. ParseUint cs = Inl e"
  using ParseUint_loop_non_digit [of cs 0] by (auto simp: ParseUint_def)

lemma ParseInt_not_base10:
  assumes "\<not> spec_base10_integer v"
  shows "\<exists>e. ParseInt v = Inl e"
proof (cases "v = []")
  case True
  then show ?thesis by (simp add: ParseInt_def)
next
  case False
  let ?ds = "if hd v = CHR ''+'' \<or> hd v = CHR ''-'' then tl v else v"
  from assms False have "?ds = [] \<or> (\<exists>c \<in> set ?ds. digit_value c = None)"
    by (auto simp: spec_base10_integer_def Let_def split: if_splits)
  from ParseUint_fails [OF this] obtain e where e: "ParseUint ?ds = Inl e" ..
  show ?thesis
    using False e by (cases e) (simp_all add: ParseInt_def Let_def)
qed

lemma decode_children_bad_date:
  assumes "IssuedEl (Some v) \<in> set cs" and "date_UnmarshalXMLAttr v = Inl e"
  shows "\<exists>cause. decode_children url_Parse u cs = Inl cause"
  using assms
proof (induction cs arbitrary: u)
  case Nil
  then show ?case by simp
next
  case (Cons c cs)
  show ?case
  proof (cases "decode_child url_Parse u c")
    case (Inl err)
    then show ?thesis by simp
  next
    case (Inr u')
    with Cons.prems have "IssuedEl (Some v) \<in> set cs" by auto
    from Cons.IH [OF this Cons.prems(2)] Inr show ?thesis by simp
  qed
qed

lemma DecodeElement_bad_date:
  assumes "IssuedEl (Some v) \<in> set (children t)" and "\<not> spec_base10_integer v"
  shows "\<exists>cause. DecodeElement url_Parse t = Inl cause"
proof -
  from ParseInt_not_base10 [OF assms(2)] obtain e where "ParseInt v = Inl e" ..
  then have "date_UnmarshalXMLAttr v = Inl e" by (simp add: date_UnmarshalXMLAttr_def)
  from decode_children_bad_date [OF assms(1) this] show ?thesis
    by (simp add: DecodeElement_def)
qed

lemma Parse_append:
  "Parse url_Parse pre flt handler s = (None, s1) \<Longrightarrow>
   Parse url_Parse (pre @ ts) flt handler s = Parse url_Parse ts flt handler s1"
proof (induction pre arbitrary: s)
  case Nil
  then show ?case by simp
next
  case (Cons t pre)
  show ?case
  proof (cases t)
    case (StartUpdate el)
    show ?thesis
    proof (cases "DecodeElement url_Parse el")
      case (Inl err)
      with Cons.prems StartUpdate show ?thesis by (simp add: Parse_decode_error)
    next
      case (Inr u)
      note step = Parse_StartUpdate [OF Inr]
      show ?thesis
      proof (cases "spec_filter_predicate flt u")
        case False
        with Cons.prems StartUpdate
        have "Parse url_Parse pre flt handler s = (None, s1)"
          by (simp add: step del: Parse.simps(4))
        from Cons.IH [OF this] show ?thesis
          using False StartUpdate by (simp add: step del: Parse.simps(4))
      next
        case True
        obtain e s2 where hs: "handler u s = (e, s2)" by (cases "handler u s")
        show ?thesis
        proof (cases e)
          case None
          with Cons.prems StartUpdate True hs
          have "Parse url_Parse pre flt handler s2 = (None, s1)"
            by (simp add: step del: Parse.simps(4))
          from Cons.IH [OF this] show ?thesis
            using True StartUpdate hs None by (simp add: step del: Parse.simps(4))
        next
          case (Some err)
          with Cons.prems StartUpdate True hs show ?thesis
            by (simp add: step del: Parse.simps(4))
        qed
      qed
    qed
  next
    case OtherToken
    with Cons.prems have "Parse url_Parse pre flt handler s = (None, s1)" by simp
    from Cons.IH [OF this] show ?thesis using OtherToken by simp
  next
    case (TokenError e)
    with Cons.prems show ?thesis by simp
  qed
qed

lemma Parse_well_formed:
  assumes "\<forall>tok \<in> set ts. well_formed_token url_Parse tok"
    and "\<forall>u st. spec_filter_predicate flt u \<longrightarrow> fst (handler u st) = None"
  shows "fst (Parse url_Parse ts flt handler init) = None"
  using assms(1)
proof (induction ts arbitrary: init)
  case Nil
  show ?case by simp
next
  case (Cons tok ts)
  then have rest: "\<And>st. fst (Parse url_Parse ts flt handler st) = None"
    by simp
  show ?case
  proof (cases tok)
    case (StartUpdate el)
    with Cons.prems obtain u where dec: "DecodeElement url_Parse el = Inr u"
      by (auto simp: well_formed_token_def split: sum.splits)
    note step = Parse_StartUpdate [OF dec]
    show ?thesis
    proof (cases "spec_filter_predicate flt u")
      case False
      then show ?thesis
        using rest by (simp add: StartUpdate step del: Parse.simps(4))
    next
      case True
      obtain e st where hs: "handler u init = (e, st)"
        by (cases "handler u init")
      from assms(2) True have "fst (handler u init) = None"
        by blast
      with hs have "e = None"
        by simp
      with hs True show ?thesis
        using rest by (simp add: StartUpdate step del: Parse.simps(4))
    qed
  next
    case OtherToken
    then show ?thesis
      using rest by simp
  next
    case (TokenError e)
    with Cons.prems show ?thesis
      by (simp add: well_formed_token_def)
  qed
qed

text \<open>C4: \<open>Parse\<close> returns the first error it meets, and the end of the input is no error.
  At the end of the input \<open>Parse\<close> returns nil and the state as it is; on a stream in which
  no token is an error and every \<open>update\<close> element decodes, with a handler that returns no
  error on the updates that pass the filter, \<open>Parse\<close> reads to the end and returns nil.
  After tokens processed without error: if the handler returns an error on the next
  update, \<open>Parse\<close> returns that very value and the state the handler left, whatever tokens
  follow; if the next \<open>update\<close> element has an \<open>issued\<close> child whose \<open>date\<close> attribute is
  not a base-10 integer, \<open>Parse\<close> returns a decoding error and the state is the one before
  the element, so the handler was not called for it; an error of the tokenizer is returned
  likewise.\<close>

theorem Parse_returns_first_error:
  "Parse url_Parse [] flt handler init = (None, init) \<and>
   ((\<forall>tok \<in> set ts. well_formed_token url_Parse tok) \<and>
    (\<forall>u st. spec_filter_predicate flt u \<longrightarrow> fst (handler u st) = None) \<longrightarrow>
      fst (Parse url_Parse ts flt handler init) = None) \<and>
   (Parse url_Parse pre flt handler s = (None, s1) \<longrightarrow>
      (DecodeElement url_Parse t = Inr u \<and> spec_filter_predicate flt u \<and>
         handler u s1 = (Some err, s2) \<longrightarrow>
       Parse url_Parse (pre @ StartUpdate t # rest) flt handler s = (Some err, s2)) \<and>
      (IssuedEl (Some v) \<in> set (children t) \<and> \<not> spec_base10_integer v \<longrightarrow>
       (\<exists>cause. Parse url_Parse (pre @ StartUpdate t # rest) flt handler s =
          (Some (DecodingElement ''update'' cause), s1))) \<and>
      Parse url_Parse (pre @ TokenError tokenErr # rest) flt handler s =
        (Some (DecodingToken tokenErr), s1))"
proof (intro conjI impI)
  show "Parse url_Parse [] flt handler init = (None, init)"
    by simp
next
  assume "(\<forall>tok \<in> set ts. well_formed_token url_Parse tok) \<and>
    (\<forall>u st. spec_filter_predicate flt u \<longrightarrow> fst (handler u st) = None)"
  then have wf: "\<forall>tok \<in> set ts. well_formed_token url_Parse tok"
    and ok: "\<forall>u st. spec_filter_predicate flt u \<longrightarrow> fst (handler u st) = None"
    by simp_all
  show "fst (Parse url_Parse ts flt handler init) = None"
    by (rule Parse_well_formed [OF wf ok])
next
  assume pre: "Parse url_Parse pre flt handler s = (None, s1)"
    and "DecodeElement url_Parse t = Inr u \<and> spec_filter_predicate flt u \<and>
      handler u s1 = (Some err, s2)"
  then show "Parse url_Parse (pre @ StartUpdate t # rest) flt handler s = (Some err, s2)"
    by (simp add: Parse_append [OF pre] Parse_StartUpdate del: Parse.simps(4))
next
  assume pre: "Parse url_Parse pre flt handler s = (None, s1)"
    and "IssuedEl (Some v) \<in> set (children t) \<and> \<not> spec_base10_integer v"
  then obtain cause where "DecodeElement url_Parse t = Inl cause"
    using DecodeElement_bad_date by blast
  then show "\<exists>cause. Parse url_Parse (pre @ StartUpdate t # rest) flt handler s =
      (Some (DecodingElement ''update'' cause), s1)"
    by (simp add: Parse_append [OF pre] Parse_decode_error del: Parse.simps(4))
next
  assume pre: "Parse url_Parse pre flt handler s = (None, s1)"
  show "Parse url_Parse (pre @ TokenError tokenErr # rest) flt handler s =
      (Some (DecodingToken tokenErr), s1)"
    by (simp add: Parse_append [OF pre])
qed

lemma ex_prefix_run: "Parse ex_url_Parse ex_prefix ex_filter ex_handler 0 = (None, 1)"
  by (simp add: ex_defs ex_prefix_def)

lemma ex_tokens_well_formed: "\<forall>tok \<in> set ex_tokens. well_formed_token ex_url_Parse tok"
  by (simp add: well_formed_token_def ex_defs)

lemma ex_counter_never_fails:
  "\<forall>u st. spec_filter_predicate ex_filter u \<longrightarrow> fst (ex_counter u st) = None"
  by (simp add: ex_counter_def)

theorem Parse_returns_first_error_witness:
  "Parse ex_url_Parse [] ex_filter ex_handler 0 = (None, 0) \<and>
   fst (Parse ex_url_Parse ex_tokens ex_filter ex_counter 0) = None \<and>
   Parse ex_url_Parse ex_prefix ex_filter ex_handler 0 = (None, 1) \<and>
   Parse ex_url_Parse
     (ex_prefix @ StartUpdate (ex_element ''security'' ''FAIL'' (Some ''1700000050'') [''curl''])
        # ex_rest) ex_filter ex_handler 0 = (Some (Foreign ''write failed''), 1) \<and>
   (\<exists>cause. Parse ex_url_Parse
     (ex_prefix @ StartUpdate (ex_element ''security'' ''H'' (Some ''not-a-number'') [''curl''])
        # ex_rest) ex_filter ex_handler 0 = (Some (DecodingElement ''update'' cause), 1)) \<and>
   Parse ex_url_Parse (ex_prefix @ TokenError ''unexpected EOF'' # ex_rest) ex_filter ex_handler 0 =
     (Some (DecodingToken ''unexpected EOF''), 1)"
proof -
  let ?fail = "ex_element ''security'' ''FAIL'' (Some ''1700000050'') [''curl'']"
  let ?u = "ex_update ''security'' ''FAIL'' (Some (time_Unix 1700000050)) [''curl'']"
  let ?bad = "ex_element ''security'' ''H'' (Some ''not-a-number'') [''curl'']"
  have dec: "DecodeElement ex_url_Parse ?fail = Inr ?u"
    by (simp add: ex_defs)
  have pass: "spec_filter_predicate ex_filter ?u"
    by (simp add: spec_filter_predicate_def ex_defs)
  have fails: "ex_handler ?u 1 = (Some (Foreign ''write failed''), 1)"
    by (simp add: ex_handler_def ex_update_def)
  have child: "IssuedEl (Some ''not-a-number'') \<in> set (children ?bad)"
    by (simp add: ex_element_def)
  have bad: "\<not> spec_base10_integer ''not-a-number''"
    by (simp add: spec_base10_integer_def digit_value_def)
  have eof: "Parse ex_url_Parse [] ex_filter ex_handler 0 = (None, 0)"
    and handler_error: "Parse ex_url_Parse (ex_prefix @ StartUpdate ?fail # ex_rest) ex_filter
        ex_handler 0 = (Some (Foreign ''write failed''), 1)"
    and token_error: "Parse ex_url_Parse (ex_prefix @ TokenError ''unexpected EOF'' # ex_rest)
        ex_filter ex_handler 0 = (Some (DecodingToken ''unexpected EOF''), 1)"
    using Parse_returns_first_error [where url_Parse = ex_url_Parse and flt = ex_filter
        and handler = ex_handler and init = 0 and ts = "[]" and pre = ex_prefix and s = 0
        and ?s1.0 = 1 and t = ?fail and u = ?u and err = "Foreign ''write failed''"
        and ?s2.0 = 1 and v = "''not-a-number''" and rest = ex_rest
        and tokenErr = "''unexpected EOF''"]
      ex_prefix_run dec pass fails
    by blast+
  have date_error: "\<exists>cause. Parse ex_url_Parse (ex_prefix @ StartUpdate ?bad # ex_rest) ex_filter
        ex_handler 0 = (Some (DecodingElement ''update'' cause), 1)"
    using Parse_returns_first_error [where url_Parse = ex_url_Parse and flt = ex_filter
        and handler = ex_handler and init = 0 and ts = "[]" and pre = ex_prefix and s = 0
        and ?s1.0 = 1 and t = ?bad and u = ?u and err = "Foreign ''write failed''"
        and ?s2.0 = 1 and v = "''not-a-number''" and rest = ex_rest
        and tokenErr = "''unexpected EOF''"]
      ex_prefix_run child bad
    by blast
  have whole_stream: "fst (Parse ex_url_Parse ex_tokens ex_filter ex_counter 0) = None"
    using Parse_returns_first_error [where url_Parse = ex_url_Parse and flt = ex_filter
        and handler = ex_counter and init = 0 and ts = ex_tokens]
      ex_tokens_well_formed ex_counter_never_fails
    by blast
  show ?thesis
    using eof whole_stream ex_prefix_run handler_error date_error token_error
    by (intro conjI)
qed

section \<open>The allow-list loader\<close>

lemma Split_not_Nil: "Split s sep \<noteq> []"
  by (induction s) (auto split: list.splits)

lemma hd_Split: "hd (Split s sep) = takeWhile (\<lambda>c. c \<noteq> sep) s"
  using Split_not_Nil by (induction s) (auto split: list.splits)

lemma scan_loop_eq:
  "scan_loop lines packages = Inr (packages @ map (\<lambda>l. spec_first_field (TrimSpace l)) lines)"
proof (induction lines arbitrary: packages)
  case Nil
  then show ?case by simp
next
  case (Cons line rest)
  obtain field fields where sp: "Split (TrimSpace line) (CHR ''|'') = field # fields"
    using Split_not_Nil [of "TrimSpace line" "CHR ''|''"] by (cases "Split (TrimSpace line) (CHR ''|'')") auto
  then have "field = spec_first_field (TrimSpace line)"
    using hd_Split [of "TrimSpace line" "CHR ''|''"] by (simp add: spec_first_field_def)
  with sp Cons.IH show ?case by simp
qed

lemma TrimSpace_Nil: "TrimSpace [] = []"
  by (simp add: TrimSpace_def TrimLeftFunc.simps TrimRightFunc.simps space_prefix_def space_suffix_def)

lemmas trim_defs = TrimSpace_def TrimLeftFunc.simps TrimRightFunc.simps space_prefix_def
  space_suffix_def asciiSpace_def unicode_spaces_def

lemma ex_trimmed:
  "map TrimSpace (file_lines ex_packages_file) =
     [''curl|0|8.6.0|150600.4.21.1|x86_64'', [], ''zlib|0|1.2.13|1.1|x86_64'']"
  by (simp add: ex_packages_file_def trim_defs)

lemma ex_fields:
  "map (\<lambda>l. spec_first_field (TrimSpace l)) (file_lines ex_packages_file) =
     [''curl'', [], ''zlib'']"
proof -
  have "map (\<lambda>l. spec_first_field (TrimSpace l)) (file_lines ex_packages_file) =
      map spec_first_field (map TrimSpace (file_lines ex_packages_file))"
    by simp
  also have "\<dots> = [''curl'', [], ''zlib'']"
    unfolding ex_trimmed by (simp add: spec_first_field_def)
  finally show ?thesis .
qed

lemma ex_readPackagesFile:
  "readPackagesFile ex_fs ''sl-micro.packages'' = Inr [''curl'', [], ''zlib'']"
  using ex_fields
  by (simp add: readPackagesFile_def ex_fs_def scan_loop_eq ex_packages_file_def)

text \<open>C7 as stated fails: a blank line is not skipped. On a file of three lines whose second
  is blank the loader returns three names, the second one empty, where the list of the
  specification has two.\<close>

theorem readPackagesFile_keeps_blank_lines:
  "readPackagesFile ex_fs ''sl-micro.packages'' = Inr [''curl'', [], ''zlib''] \<and>
   spec_allow_list (file_lines ex_packages_file) = [''curl'', ''zlib''] \<and>
   readPackagesFile ex_fs ''sl-micro.packages'' \<noteq>
     Inr (spec_allow_list (file_lines ex_packages_file))"
  using ex_trimmed by (simp add: ex_readPackagesFile spec_allow_list_def spec_first_field_def)

text \<open>C7, amended: for the empty path the loader returns the empty list and no error; for a
  file that is opened and scanned without error it returns, for every line in order, blank
  lines included, the first pipe-delimited field of the line trimmed of white space. A blank
  line contributes the empty name.\<close>

theorem readPackagesFile_first_field_of_every_line:
  "readPackagesFile fs [] = Inr [] \<and>
   (pkgFile \<noteq> [] \<and> fs pkgFile = Inr file \<and> file_scan_err file = None \<longrightarrow>
      readPackagesFile fs pkgFile =
        Inr (map (\<lambda>l. spec_first_field (TrimSpace l)) (file_lines file))) \<and>
   spec_first_field (TrimSpace []) = []"
  by (simp add: readPackagesFile_def scan_loop_eq TrimSpace_Nil spec_first_field_def)

theorem readPackagesFile_first_field_of_every_line_witness:
  "readPackagesFile ex_fs [] = Inr [] \<and>
   ex_fs ''sl-micro.packages'' = Inr ex_packages_file \<and>
   file_scan_err ex_packages_file = None \<and>
   readPackagesFile ex_fs ''sl-micro.packages'' = Inr [''curl'', [], ''zlib'']"
proof -
  have opened: "ex_fs ''sl-micro.packages'' = Inr ex_packages_file"
    by (simp add: ex_fs_def)
  have scanned: "file_scan_err ex_packages_file = None"
    by (simp add: ex_packages_file_def)
  show ?thesis
    using readPackagesFile_first_field_of_every_line
      [of ex_fs "''sl-micro.packages''" ex_packages_file] opened scanned ex_fields
    by simp
qed

section \<open>The date options of the command line\<close>

lemma RunE_afterStr_sets_beforeDate:
  assumes "beforeStr flags = []" and "afterStr flags \<noteq> []" and "packagesF flags = []"
    and "ParseInt (afterStr flags) = Inr i"
  shows "\<exists>fCfg. RunE_fCfg time_Parse fs in_100_years flags = Inr fCfg \<and>
           beforeDate fCfg = time_Unix i \<and> afterDate fCfg = time_Unix 0"
  using assms
  by (simp add: RunE_fCfg_def RunE_fOpts_def NewFilterConfig_def WithBeforeTime_def
      WithUpdateType_def parseTime_def)

text \<open>C8: the command line \<open>--afterDate 1700000000\<close> with no \<open>--beforeDate\<close>. \<open>RunE\<close> hands
  the value of the flag \<open>afterDate\<close> to \<open>WithBeforeTime\<close>: the configuration has
  \<open>beforeDate\<close> at 1700000000 and \<open>afterDate\<close> at its default, the epoch.
  \<open>WithAfterTime\<close> on the same value gives what the flag promises: \<open>afterDate\<close> at
  1700000000 and \<open>beforeDate\<close> at its default.\<close>

theorem RunE_after_flag_sets_beforeDate:
  "RunE_fCfg ex_time_Parse ex_fs ex_in_100_years ex_flags_after =
     Inr \<lparr>beforeDate = time_Unix 1700000000, afterDate = time_Unix 0, dateFormat = [],
          pkgWhiteList = [], updateType = []\<rparr> \<and>
   NewFilterConfig ex_in_100_years [WithAfterTime ex_time_Parse ''1700000000''] =
     Inr \<lparr>beforeDate = ex_in_100_years, afterDate = time_Unix 1700000000, dateFormat = [],
          pkgWhiteList = [], updateType = []\<rparr>"
  by (simp add: RunE_fCfg_def RunE_fOpts_def NewFilterConfig_def ex_flags_after_def
      WithBeforeTime_def WithAfterTime_def parseTime_def ParseInt_def ParseUint_def
      digit_value_def maxUint64_def)

section \<open>The sections of the template strategy\<close>

lemma execute_all_append:
  "execute_all t wr (xs @ ys) w =
     (case execute_all t wr xs w of
        (Some err, w1) \<Rightarrow> (Some err, w1)
      | (None, w1) \<Rightarrow> execute_all t wr ys w1)"
  by (induction xs arbitrary: w) (auto split: prod.splits option.splits)

lemma joined_bodies_Cons: "spec_joined_bodies (u # us) = (''body'', UpdateData u) # later_bodies us"
  by (induction us arbitrary: u) (simp_all add: later_bodies_def)

lemma template_handler_first:
  "template_handler t wr u (True, w) =
     (case t wr ''body'' (UpdateData u) w of
        (Some err, w2) \<Rightarrow> (Some err, (True, w2))
      | (None, w2) \<Rightarrow> (None, (False, w2)))"
  by (simp add: template_handler_def)

lemma template_handler_later:
  "template_handler t wr u (False, w) =
     (case t wr ''join'' NilData w of
        (Some err, w1) \<Rightarrow> (Some err, (False, w1))
      | (None, w1) \<Rightarrow>
          (case t wr ''body'' (UpdateData u) w1 of
             (Some err, w2) \<Rightarrow> (Some err, (False, w2))
           | (None, w2) \<Rightarrow> (None, (False, w2))))"
  by (simp add: template_handler_def)

lemma survivors_Nil: "survivors url_Parse flt [] = []"
  by (simp add: survivors_def)

lemma survivors_OtherToken:
  "survivors url_Parse flt (OtherToken # ts) = survivors url_Parse flt ts"
  by (simp add: survivors_def)

lemma survivors_skip:
  "DecodeElement url_Parse el = Inr u \<Longrightarrow> \<not> spec_filter_predicate flt u \<Longrightarrow>
   survivors url_Parse flt (StartUpdate el # ts) = survivors url_Parse flt ts"
  by (simp add: survivors_def)

lemma survivors_keep:
  "DecodeElement url_Parse el = Inr u \<Longrightarrow> spec_filter_predicate flt u \<Longrightarrow>
   survivors url_Parse flt (StartUpdate el # ts) = u # survivors url_Parse flt ts"
  by (simp add: survivors_def)

lemma Parse_template_handler:
  "Parse url_Parse ts flt (template_handler t wr) (first, w) = (None, (first', w')) \<Longrightarrow>
   execute_all t wr
     (if first then spec_joined_bodies (survivors url_Parse flt ts)
      else later_bodies (survivors url_Parse flt ts)) w = (None, w')"
proof (induction ts arbitrary: first w)
  case Nil
  then show ?case by (simp add: survivors_Nil later_bodies_def)
next
  case (Cons tok ts)
  show ?case
  proof (cases tok)
    case (StartUpdate el)
    show ?thesis
    proof (cases "DecodeElement url_Parse el")
      case (Inl err)
      with Cons.prems StartUpdate show ?thesis by (simp add: Parse_decode_error)
    next
      case (Inr u)
      note step = Parse_StartUpdate [OF Inr]
      show ?thesis
      proof (cases "spec_filter_predicate flt u")
        case False
        with Cons.prems StartUpdate
        have "Parse url_Parse ts flt (template_handler t wr) (first, w) = (None, (first', w'))"
          by (simp add: step del: Parse.simps(4))
        from Cons.IH [OF this] show ?thesis
          by (cases first) (simp_all add: StartUpdate survivors_skip [OF Inr False])
      next
        case True
        have surv: "survivors url_Parse flt (tok # ts) = u # survivors url_Parse flt ts"
          by (simp add: StartUpdate survivors_keep [OF Inr True])
        show ?thesis
        proof (cases first)
          case True
          obtain e w2 where body: "t wr ''body'' (UpdateData u) w = (e, w2)"
            by (cases "t wr ''body'' (UpdateData u) w")
          with Cons.prems StartUpdate \<open>spec_filter_predicate flt u\<close> True
          have e: "e = None"
            and rest: "Parse url_Parse ts flt (template_handler t wr) (False, w2) = (None, (first', w'))"
            by (cases e; simp add: step template_handler_first del: Parse.simps(4))+
          from Cons.IH [OF rest] have "execute_all t wr (later_bodies (survivors url_Parse flt ts)) w2 = (None, w')"
            by simp
          with body e True show ?thesis
            by (simp add: surv joined_bodies_Cons)
        next
          case False
          obtain e1 w1 where join: "t wr ''join'' NilData w = (e1, w1)"
            by (cases "t wr ''join'' NilData w")
          obtain e2 w2 where body: "t wr ''body'' (UpdateData u) w1 = (e2, w2)"
            by (cases "t wr ''body'' (UpdateData u) w1")
          from Cons.prems StartUpdate \<open>spec_filter_predicate flt u\<close> False join
          have e1: "e1 = None"
            by (cases e1; simp add: step template_handler_later del: Parse.simps(4))
          from Cons.prems StartUpdate \<open>spec_filter_predicate flt u\<close> False join body e1
          have e2: "e2 = None"
            and rest: "Parse url_Parse ts flt (template_handler t wr) (False, w2) = (None, (first', w'))"
            by (cases e2; simp add: step template_handler_later del: Parse.simps(4))+
          from Cons.IH [OF rest] have "execute_all t wr (later_bodies (survivors url_Parse flt ts)) w2 = (None, w')"
            by simp
          with join body e1 e2 False show ?thesis
            by (simp add: surv later_bodies_def)
        qed
      qed
    qed
  next
    case OtherToken
    with Cons.prems
    have "Parse url_Parse ts flt (template_handler t wr) (first, w) = (None, (first', w'))"
      by simp
    from Cons.IH [OF this] show ?thesis
      by (cases first) (simp_all add: OtherToken survivors_OtherToken)
  next
    case (TokenError e)
    with Cons.prems show ?thesis by simp
  qed
qed

lemma count_joined_bodies:
  "length (filter (\<lambda>s. fst s = ''body'') (spec_joined_bodies us)) = length us \<and>
   length (filter (\<lambda>s. fst s = ''join'') (spec_joined_bodies us)) = length us - 1 \<and>
   filter (\<lambda>s. fst s = ''header'') (spec_joined_bodies us) = [] \<and>
   filter (\<lambda>s. fst s = ''footer'') (spec_joined_bodies us) = [] \<and>
   map snd (filter (\<lambda>s. fst s = ''body'') (spec_joined_bodies us)) = map UpdateData us"
  by (induction us rule: spec_joined_bodies.induct) simp_all

lemma count_sections:
  "length (filter (\<lambda>s. fst s = ''header'') (spec_sections us)) = 1 \<and>
   length (filter (\<lambda>s. fst s = ''body'') (spec_sections us)) = length us \<and>
   length (filter (\<lambda>s. fst s = ''join'') (spec_sections us)) = length us - 1 \<and>
   length (filter (\<lambda>s. fst s = ''footer'') (spec_sections us)) = 1 \<and>
   map snd (filter (\<lambda>s. fst s = ''body'') (spec_sections us)) = map UpdateData us"
  using count_joined_bodies [of us] by (simp add: spec_sections_def)

lemma ParseToOutput_body_template:
  assumes "\<not> jsonOut out" and "template out = Some t"
    and "ParseToOutput_body url_Parse json_MarshalIndent reader flt out w = (None, w1)"
  shows "execute_all t (output_writer out) (spec_sections (survivors url_Parse flt reader)) w = (None, w1)"
proof -
  let ?wr = "output_writer out"
  obtain e0 w0 where header: "t ?wr ''header'' NilData w = (e0, w0)"
    by (cases "t ?wr ''header'' NilData w")
  with assms have e0: "e0 = None"
    by (cases e0) (simp_all add: ParseToOutput_body_def)
  obtain r first' w2 where run:
    "Parse url_Parse reader flt (template_handler t ?wr) (True, w0) = (r, (first', w2))"
    by (cases "Parse url_Parse reader flt (template_handler t ?wr) (True, w0)") auto
  with assms header e0 have r: "r = None"
    by (cases r) (simp_all add: ParseToOutput_body_def)
  with assms header e0 run have footer: "t ?wr ''footer'' NilData w2 = (None, w1)"
    by (simp add: ParseToOutput_body_def)
  from Parse_template_handler [OF run [unfolded r]]
  have bodies: "execute_all t ?wr (spec_joined_bodies (survivors url_Parse flt reader)) w0 = (None, w2)"
    by simp
  show ?thesis
    using header e0 bodies footer
    by (simp add: spec_sections_def execute_all_append)
qed

text \<open>C5: under the template strategy, a run that returns no error has executed, on the
  writer and in this order, the header once, the body of each of the \<open>N\<close> surviving records
  in document order with one join between two consecutive bodies, and the footer once:
  \<open>N\<close> bodies, \<open>N - 1\<close> joins (none when \<open>N\<close> is 0 or 1), one header and one footer. The
  writer is then closed when the configuration has a \<open>close\<close>.\<close>

theorem ParseToOutput_template_sections:
  assumes "\<not> jsonOut out" and "template out = Some t"
    and "ParseToOutput url_Parse json_MarshalIndent reader flt out w = (None, w')"
  shows "\<exists>w1. execute_all t (output_writer out) (spec_sections (survivors url_Parse flt reader)) w =
              (None, w1) \<and>
           w' = (case close out of None \<Rightarrow> w1 | Some cl \<Rightarrow> snd (cl w1)) \<and>
           hd (spec_sections (survivors url_Parse flt reader)) = (''header'', NilData) \<and>
           last (spec_sections (survivors url_Parse flt reader)) = (''footer'', NilData) \<and>
           length (filter (\<lambda>s. fst s = ''header'') (spec_sections (survivors url_Parse flt reader))) = 1 \<and>
           length (filter (\<lambda>s. fst s = ''body'') (spec_sections (survivors url_Parse flt reader))) =
             length (survivors url_Parse flt reader) \<and>
           length (filter (\<lambda>s. fst s = ''join'') (spec_sections (survivors url_Parse flt reader))) =
             length (survivors url_Parse flt reader) - 1 \<and>
           length (filter (\<lambda>s. fst s = ''footer'') (spec_sections (survivors url_Parse flt reader))) = 1 \<and>
           map snd (filter (\<lambda>s. fst s = ''body'') (spec_sections (survivors url_Parse flt reader))) =
             map UpdateData (survivors url_Parse flt reader)"
proof -
  obtain retErr w1 where body:
    "ParseToOutput_body url_Parse json_MarshalIndent reader flt out w = (retErr, w1)"
    by (cases "ParseToOutput_body url_Parse json_MarshalIndent reader flt out w")
  have ok: "retErr = None \<and> w' = (case close out of None \<Rightarrow> w1 | Some cl \<Rightarrow> snd (cl w1))"
  proof (cases "close out")
    case None
    with assms(3) body show ?thesis by (simp add: ParseToOutput_def)
  next
    case (Some cl)
    obtain err w2 where cl: "cl w1 = (err, w2)" by (cases "cl w1")
    with assms(3) body Some show ?thesis
      by (auto simp: ParseToOutput_def deferred_close_def split: if_splits)
  qed
  with body have "ParseToOutput_body url_Parse json_MarshalIndent reader flt out w = (None, w1)"
    by simp
  from ParseToOutput_body_template [OF assms(1,2) this] ok
    count_sections [of "survivors url_Parse flt reader"]
  show ?thesis
    by (intro exI [of _ w1]) (simp add: spec_sections_def)
qed

lemma ex_survivors:
  "survivors ex_url_Parse ex_filter ex_tokens =
     [ex_update ''security'' ''A'' (Some (time_Unix 1700000050)) [''vim'', ''curl''],
      ex_update ''security'' ''G'' (Some (time_Unix 1700000051)) [''zlib'']]"
  by (simp add: survivors_def spec_filter_predicate_def ex_defs)

lemma ex_ParseToOutput:
  "ParseToOutput ex_url_Parse ex_MarshalIndent ex_tokens ex_filter ex_out [] =
     (None, ''<header><body A><join><body G><footer>'')"
  by (simp add: ParseToOutput_def ParseToOutput_body_def ex_out_def ex_template_def ex_Write_def
      template_handler_def ex_defs)

lemma ex_ParseToOutput_empty:
  "ParseToOutput ex_url_Parse ex_MarshalIndent [] ex_filter ex_out [] =
     (None, ''<header><footer>'')"
  by (simp add: ParseToOutput_def ParseToOutput_body_def ex_out_def ex_template_def ex_Write_def)

theorem ParseToOutput_template_sections_witness:
  "ParseToOutput ex_url_Parse ex_MarshalIndent ex_tokens ex_filter ex_out [] =
     (None, ''<header><body A><join><body G><footer>'') \<and>
   spec_sections (survivors ex_url_Parse ex_filter ex_tokens) =
     [(''header'', NilData),
      (''body'', UpdateData (ex_update ''security'' ''A'' (Some (time_Unix 1700000050)) [''vim'', ''curl''])),
      (''join'', NilData),
      (''body'', UpdateData (ex_update ''security'' ''G'' (Some (time_Unix 1700000051)) [''zlib''])),
      (''footer'', NilData)] \<and>
   execute_all ex_template ex_Write (spec_sections (survivors ex_url_Parse ex_filter ex_tokens)) [] =
     (None, ''<header><body A><join><body G><footer>'') \<and>
   ParseToOutput ex_url_Parse ex_MarshalIndent [] ex_filter ex_out [] =
     (None, ''<header><footer>'') \<and>
   spec_sections (survivors ex_url_Parse ex_filter []) = [(''header'', NilData), (''footer'', NilData)] \<and>
   execute_all ex_template ex_Write (spec_sections (survivors ex_url_Parse ex_filter [])) [] =
     (None, ''<header><footer>'')"
proof -
  have strategy: "\<not> jsonOut ex_out" "template ex_out = Some ex_template"
    "close ex_out = None" "output_writer ex_out = ex_Write"
    by (simp_all add: ex_out_def)
  from ParseToOutput_template_sections [OF strategy(1,2) ex_ParseToOutput]
  have two: "execute_all ex_template ex_Write (spec_sections (survivors ex_url_Parse ex_filter ex_tokens)) [] =
     (None, ''<header><body A><join><body G><footer>'')"
    by (simp add: strategy)
  from ParseToOutput_template_sections [OF strategy(1,2) ex_ParseToOutput_empty]
  have none: "execute_all ex_template ex_Write (spec_sections (survivors ex_url_Parse ex_filter [])) [] =
     (None, ''<header><footer>'')"
    by (simp add: strategy)
  show ?thesis
    using two none ex_ParseToOutput ex_ParseToOutput_empty
    by (simp add: ex_survivors survivors_Nil spec_sections_def)
qed

section \<open>Opening the input file\<close>

lemma ParseFileToOutput_open_error:
  "fs updateXML = Inl err \<Longrightarrow>
   ParseFileToOutput url_Parse json_MarshalIndent fs updateXML flt out w = (None, w)"
  by (simp add: ParseFileToOutput_def)

text \<open>C9: a path whose file cannot be opened. The source tests the error of \<open>os.Open\<close> and
  returns nil: \<open>ParseFileToOutput\<close> reports success and writes nothing.\<close>

theorem ParseFileToOutput_open_failure_returns_nil:
  "ex_fs ''updateinfo.xml'' = Inl ''no such file or directory'' \<and>
   ParseFileToOutput ex_url_Parse ex_MarshalIndent ex_fs ''updateinfo.xml'' ex_filter ex_out [] =
     (None, [])"
  by (simp add: ParseFileToOutput_def ex_fs_def)

end
